theory Spec2Isabelle
  imports Main
begin

section \<open>The host-language masking function\<close>

text \<open>
  The development follows \<^verbatim>\<open>scripts/email_masking_pipeline.py\<close>. Python strings are
  HOL strings (character lists), exceptions are values of the type \<open>error\<close>, and a function
  that may raise returns \<open>error + 'a\<close> with \<open>Inl\<close> carrying the exception.
\<close>

datatype error =
    ValueError
  | IndexError
  | KeyError
  | TypeError
  | FileNotFoundError
  | FileExistsError
  | NotADirectoryError
  | IsADirectoryError
  | MalformedInput
  | DuckDBError

subsection \<open>\<^verbatim>\<open>str.split(sep, 1)\<close>\<close>

text \<open>
  \<open>split_first sep s\<close> looks for the first occurrence of the separator: \<open>None\<close> when there
  is none, otherwise the text before it and the text after it.
\<close>

fun split_first :: "char \<Rightarrow> string \<Rightarrow> (string \<times> string) option" where
  "split_first sep [] = None"
| "split_first sep (c # cs) =
     (if c = sep then Some ([], cs)
      else (case split_first sep cs of
              None \<Rightarrow> None
            | Some (before, after) \<Rightarrow> Some (c # before, after)))"

text \<open>
  \<^verbatim>\<open>s.split(sep, 1)\<close> for a one-character separator: at most one split is made, so the
  result is the one-element list \<open>[s]\<close> when the separator does not occur and the
  two-element list of the text before and after the first occurrence when it does.
\<close>

definition split_max1 :: "string \<Rightarrow> char \<Rightarrow> string list" where
  "split_max1 s sep =
     (case split_first sep s of
        None \<Rightarrow> [s]
      | Some (before, after) \<Rightarrow> [before, after])"

subsection \<open>\<^verbatim>\<open>mask_email\<close>\<close>

text \<open>
  \<^verbatim>\<open>
  def mask_email(email: str) -> str:
      if not email or '@' not in email:
          return email
      local_part, domain = email.split('@', 1)
      masked_local = '*' * 7
      return <f-string: masked_local, then '@', then domain>
  \<close>
  The short-circuit \<^verbatim>\<open>or\<close> of the guard is the chain of two conditionals. The tuple
  assignment raises \<^verbatim>\<open>ValueError\<close> when the list does not have exactly two elements;
  that branch is kept, and \<open>mask_email_returns\<close> below shows it is never taken.
\<close>

definition mask_email :: "string \<Rightarrow> error + string" where
  "mask_email email =
     (if email = [] then Inr email
      else if CHR ''@'' \<in> set email then
        (case split_max1 email (CHR ''@'') of
           [local_part, domain] \<Rightarrow>
             (let masked_local = replicate 7 (CHR ''*'')
              in Inr (masked_local @ ''@'' @ domain))
         | _ \<Rightarrow> Inl ValueError)
      else Inr email)"

section \<open>The input document and the flatten step\<close>

text \<open>
  The input document after \<^verbatim>\<open>json.load\<close>: an object with \<^verbatim>\<open>CompanyID\<close> and
  \<^verbatim>\<open>CompanyInfo\<close>, a sequence of company objects (\<^verbatim>\<open>Name\<close>, \<^verbatim>\<open>Customers\<close>), each customer
  an object with \<^verbatim>\<open>Name\<close>, \<^verbatim>\<open>Email\<close>, \<^verbatim>\<open>Phone\<close>, \<^verbatim>\<open>Birth\<close>, \<^verbatim>\<open>Place of Birth\<close> and
  \<^verbatim>\<open>Role\<close>. The records fix this shape, so a missing key (\<^verbatim>\<open>KeyError\<close>) is outside
  the model; the length of \<^verbatim>\<open>CompanyInfo\<close> is not fixed, so \<^verbatim>\<open>CompanyInfo[0]\<close> can
  still raise \<^verbatim>\<open>IndexError\<close>.
\<close>

record customer =
  customer_Name :: string
  customer_Email :: string
  customer_Phone :: string
  customer_Birth :: string
  customer_Place_of_Birth :: string
  customer_Role :: string

record company =
  company_Name :: string
  company_Customers :: "customer list"

record data =
  data_CompanyID :: int
  data_CompanyInfo :: "company list"

text \<open>One dictionary of the list \<^verbatim>\<open>flattened_customers\<close>.\<close>

record flattened =
  CompanyID :: int
  CompanyName :: string
  CustomerName :: string
  Email :: string
  Phone :: string
  DateOfBirth :: string
  PlaceOfBirth :: string
  Role :: string

text \<open>
  \<^verbatim>\<open>
  flattened_customers = []
  for customer in customers:
      flattened_customers.append({'CompanyID': company_id, 'CompanyName': company_name,
          'CustomerName': customer['Name'], 'Email': customer['Email'],
          'Phone': customer['Phone'], 'DateOfBirth': customer['Birth'],
          'PlaceOfBirth': customer['Place of Birth'], 'Role': customer['Role']})
  \<close>
  The loop, with the list built so far as its last argument.
\<close>

fun flatten_loop :: "int \<Rightarrow> string \<Rightarrow> customer list \<Rightarrow> flattened list \<Rightarrow> flattened list" where
  "flatten_loop company_id company_name [] flattened_customers = flattened_customers"
| "flatten_loop company_id company_name (customer # customers) flattened_customers =
     flatten_loop company_id company_name customers
       (flattened_customers @
          [\<lparr>CompanyID = company_id,
            CompanyName = company_name,
            CustomerName = customer_Name customer,
            Email = customer_Email customer,
            Phone = customer_Phone customer,
            DateOfBirth = customer_Birth customer,
            PlaceOfBirth = customer_Place_of_Birth customer,
            Role = customer_Role customer\<rparr>])"

text \<open>
  Lines 69 to 86 of \<^verbatim>\<open>flatten_and_transform_customer_data\<close>:
  \<^verbatim>\<open>
  company_id = data['CompanyID']
  company_info = data['CompanyInfo'][0]
  company_name = company_info['Name']
  customers = company_info['Customers']
  \<close>
  followed by the loop. Indexing an empty \<^verbatim>\<open>CompanyInfo\<close> raises \<^verbatim>\<open>IndexError\<close>.
\<close>

definition flatten_customers :: "data \<Rightarrow> error + flattened list" where
  "flatten_customers data =
     (let company_id = data_CompanyID data in
      case data_CompanyInfo data of
        [] \<Rightarrow> Inl IndexError
      | company_info # later \<Rightarrow>
          (let company_name = company_Name company_info;
               customers = company_Customers company_info
           in Inr (flatten_loop company_id company_name customers [])))"

section \<open>The tables built by the embedded SQL engine\<close>

subsection \<open>String functions of the engine\<close>

text \<open>
  The engine splits a string at every occurrence of the separator; the parts of the
  empty string are the one empty string.
\<close>

fun split_all :: "char \<Rightarrow> string \<Rightarrow> string list" where
  "split_all sep [] = [[]]"
| "split_all sep (c # cs) =
     (if c = sep then [] # split_all sep cs
      else (case split_all sep cs of
              [] \<Rightarrow> [[c]]
            | part # parts \<Rightarrow> (c # part) # parts))"

text \<open>
  \<^verbatim>\<open>SPLIT_PART(string, separator, index)\<close> for a one-character separator and the
  positive indexes the pipeline uses: the part at the 1-based index, and the empty string
  when there is no such part.
\<close>

definition SPLIT_PART :: "string \<Rightarrow> char \<Rightarrow> nat \<Rightarrow> string" where
  "SPLIT_PART s sep i =
     (let parts = split_all sep s
      in if 1 \<le> i \<and> i \<le> length parts then parts ! (i - 1) else [])"

definition CONCAT :: "string \<Rightarrow> string \<Rightarrow> string" where
  "CONCAT a b = a @ b"

text \<open>
  The select-list item of \<^verbatim>\<open>customers_secure_sql\<close>:
  \<^verbatim>\<open>CONCAT('*******@', SPLIT_PART(Email, '@', 2)) as Email_Masked\<close>.
\<close>

definition Email_Masked_sql :: "string \<Rightarrow> string" where
  "Email_Masked_sql email = CONCAT ''*******@'' (SPLIT_PART email (CHR ''@'') 2)"

subsection \<open>What the engine decides\<close>

text \<open>
  Two things are the engine's business and are not fixed by this repository; they are
  parameters of the model.
  \<^item> \<^verbatim>\<open>read_json_auto\<close> detects the type of every field of the document. A field of JSON
    strings either stays a text column, holding the strings as they are, or becomes a
    column of another type (a date, a timestamp, ...) when its values read as that type.
    \<open>detect engine data name = None\<close> says that the column \<open>name\<close> of the document
    \<open>data\<close> stays text, \<open>detect engine data name = Some shown\<close> that it becomes a
    column of another type whose values print as \<open>shown\<close>. The columns are named as in
    \<^verbatim>\<open>customers_tabular\<close>: \<^verbatim>\<open>CompanyName\<close>, \<^verbatim>\<open>Name\<close>, \<^verbatim>\<open>Email\<close>, \<^verbatim>\<open>Phone\<close>,
    \<^verbatim>\<open>Birth\<close>, \<^verbatim>\<open>Place of Birth\<close>, \<^verbatim>\<open>Role\<close>.
  \<^item> The engine reads some path strings as patterns or addresses rather than as the name
    of one file. \<open>literal engine path\<close> says that it takes the path as the name of the
    file itself, as the host language does.
\<close>

record engine =
  detect :: "data \<Rightarrow> string \<Rightarrow> string list option"
  literal :: "string \<Rightarrow> bool"

datatype cell = IntCell int | StrCell string | TypedCell string

definition column_cells :: "engine \<Rightarrow> data \<Rightarrow> string \<Rightarrow> string list \<Rightarrow> cell list" where
  "column_cells engine data name values =
     (case detect engine data name of
        None \<Rightarrow> map StrCell values
      | Some shown \<Rightarrow> map TypedCell shown)"

text \<open>
  An engine for the examples: a column that holds nothing but dates written
  \<^verbatim>\<open>YYYY-MM-DD\<close> becomes a date column printed the same way, every other column stays
  text; a path without the characters \<^verbatim>\<open>*\<close>, \<^verbatim>\<open>?\<close>, \<^verbatim>\<open>[\<close>, \<^verbatim>\<open>~\<close> and \<^verbatim>\<open>:\<close> is the name
  of the file itself.
\<close>

definition digit :: "char \<Rightarrow> bool" where
  "digit c = (c \<in> set ''0123456789'')"

fun iso_date :: "string \<Rightarrow> bool" where
  "iso_date [y1, y2, y3, y4, s1, m1, m2, s2, d1, d2] =
     (digit y1 \<and> digit y2 \<and> digit y3 \<and> digit y4 \<and> s1 = CHR ''-'' \<and>
      digit m1 \<and> digit m2 \<and> s2 = CHR ''-'' \<and> digit d1 \<and> digit d2)"
| "iso_date other = False"

definition detect_dates :: "string list \<Rightarrow> string list option" where
  "detect_dates values =
     (if values \<noteq> [] \<and> list_all iso_date values then Some values else None)"

definition field_values :: "data \<Rightarrow> string \<Rightarrow> string list" where
  "field_values data name =
     (let companies = data_CompanyInfo data;
          customers = concat (map company_Customers companies)
      in if name = ''CompanyName'' then map company_Name companies
         else if name = ''Name'' then map customer_Name customers
         else if name = ''Email'' then map customer_Email customers
         else if name = ''Phone'' then map customer_Phone customers
         else if name = ''Birth'' then map customer_Birth customers
         else if name = ''Place of Birth'' then map customer_Place_of_Birth customers
         else if name = ''Role'' then map customer_Role customers
         else [])"

definition example_detect :: "data \<Rightarrow> string \<Rightarrow> string list option" where
  "example_detect data name = detect_dates (field_values data name)"

definition plain_name :: "string \<Rightarrow> bool" where
  "plain_name path = (\<not> list_ex (\<lambda>c. c \<in> set ''*?[~:'') path)"

definition example_engine :: engine where
  "example_engine = \<lparr>detect = example_detect, literal = plain_name\<rparr>"

subsection \<open>Tables\<close>

text \<open>
  \<^verbatim>\<open>customers_raw\<close> holds the document as its one row. \<^verbatim>\<open>customers_flattened\<close>
  unnests \<^verbatim>\<open>CompanyInfo\<close>: one row for each company, all of them, carrying
  \<^verbatim>\<open>CompanyID\<close>, \<^verbatim>\<open>Name\<close> and \<^verbatim>\<open>Customers\<close>.
\<close>

definition customers_flattened :: "engine \<Rightarrow> data \<Rightarrow> (int \<times> cell \<times> customer list) list" where
  "customers_flattened engine data =
     (let companies = data_CompanyInfo data;
          Name = column_cells engine data ''CompanyName'' (map company_Name companies)
      in map (\<lambda>i. (data_CompanyID data, Name ! i, company_Customers (companies ! i)))
           [0..<length companies])"

text \<open>
  A row of \<^verbatim>\<open>customers_tabular\<close>: \<^verbatim>\<open>CompanyID\<close>, the company's \<^verbatim>\<open>Name\<close> renamed
  \<^verbatim>\<open>CompanyName\<close>, and the fields of one customer under their names in the document.
  \<^verbatim>\<open>Email\<close> is kept as the string of the document; whether the engine holds the column
  as text is asked of the engine where the host language reads the column.
\<close>

record tabular_row =
  t_CompanyID :: int
  t_CompanyName :: cell
  t_Name :: cell
  t_Email :: string
  t_Phone :: cell
  t_Birth :: cell
  t_Place_of_Birth :: cell
  t_Role :: cell

text \<open>
  \<^verbatim>\<open>customers_tabular\<close> unnests \<^verbatim>\<open>Customers\<close>: one row for each customer of each row
  of \<^verbatim>\<open>customers_flattened\<close>.
\<close>

definition customers_tabular ::
  "engine \<Rightarrow> data \<Rightarrow> (int \<times> cell \<times> customer list) list \<Rightarrow> tabular_row list" where
  "customers_tabular engine data flattened_rows =
     (let unnested = concat (map (\<lambda>(company_id, name, customers).
            map (\<lambda>customer. (company_id, name, customer)) customers) flattened_rows);
          customers = map (\<lambda>(company_id, name, customer). customer) unnested;
          Name = column_cells engine data ''Name'' (map customer_Name customers);
          Phone = column_cells engine data ''Phone'' (map customer_Phone customers);
          Birth = column_cells engine data ''Birth'' (map customer_Birth customers);
          Place_of_Birth = column_cells engine data ''Place of Birth'' (map customer_Place_of_Birth customers);
          Role = column_cells engine data ''Role'' (map customer_Role customers)
      in map (\<lambda>k. case unnested ! k of (company_id, name, customer) \<Rightarrow>
           \<lparr>t_CompanyID = company_id,
            t_CompanyName = name,
            t_Name = Name ! k,
            t_Email = customer_Email customer,
            t_Phone = Phone ! k,
            t_Birth = Birth ! k,
            t_Place_of_Birth = Place_of_Birth ! k,
            t_Role = Role ! k\<rparr>) [0..<length unnested])"

text \<open>
  A table that is exported: its column names in order, and its rows as lists of cells in
  the same order.
\<close>

record table =
  columns :: "string list"
  rows :: "cell list list"

text \<open>
  \<^verbatim>\<open>
  CREATE OR REPLACE TABLE customers_secure_sql AS
  SELECT CompanyID, CompanyName, Name as CustomerName, Email as Email_Original,
         CONCAT('*******@', SPLIT_PART(Email, '@', 2)) as Email_Masked,
         Phone, Birth as DateOfBirth, "Place of Birth" as PlaceOfBirth, Role
  FROM customers_tabular
  \<close>
  The statement runs only after the host language has read the \<^verbatim>\<open>Email\<close> column as
  text, so both email columns are text here.
\<close>

definition customers_secure_sql :: "tabular_row list \<Rightarrow> table" where
  "customers_secure_sql tabular =
     \<lparr>columns = [''CompanyID'', ''CompanyName'', ''CustomerName'', ''Email_Original'',
                 ''Email_Masked'', ''Phone'', ''DateOfBirth'', ''PlaceOfBirth'', ''Role''],
      rows = map (\<lambda>r.
        [IntCell (t_CompanyID r),
         t_CompanyName r,
         t_Name r,
         StrCell (t_Email r),
         StrCell (Email_Masked_sql (t_Email r)),
         t_Phone r,
         t_Birth r,
         t_Place_of_Birth r,
         t_Role r]) tabular\<rparr>"

text \<open>The cells of the column with the given name, top to bottom.\<close>

fun position :: "string \<Rightarrow> string list \<Rightarrow> nat" where
  "position name [] = 0"
| "position name (c # cs) = (if c = name then 0 else Suc (position name cs))"

definition column_values :: "table \<Rightarrow> string \<Rightarrow> cell list" where
  "column_values t name = map (\<lambda>row. row ! position name (columns t)) (rows t)"

text \<open>
  \<^verbatim>\<open>df['Email'].apply(mask_email)\<close>: the host-language function on each value of the
  \<^verbatim>\<open>Email\<close> column, stopping at the first exception. The table \<^verbatim>\<open>customers_secure\<close>
  that the in-memory connection builds from the result is never read or exported.
\<close>

fun apply_mask_email :: "string list \<Rightarrow> error + string list" where
  "apply_mask_email [] = Inr []"
| "apply_mask_email (email # emails) =
     (case mask_email email of
        Inl e \<Rightarrow> Inl e
      | Inr masked \<Rightarrow>
          (case apply_mask_email emails of
             Inl e \<Rightarrow> Inl e
           | Inr rest \<Rightarrow> Inr (masked # rest)))"

section \<open>The pipeline on a file system\<close>

subsection \<open>Files and directories\<close>

text \<open>
  The file system gives for a path what is there: nothing, a directory, or a regular file
  with its content. The content of a file is the JSON text of a document, one of the three
  artifacts, or anything else. Each path names its own node: links and other spellings of
  the same path are not modelled, and neither are permissions.
\<close>

datatype content =
    JsonFile data
  | CsvFile table
  | ParquetFile table
  | DuckDBFile "(string \<times> table) list"
  | OtherFile

datatype node = Directory | File content

type_synonym filesystem = "string \<Rightarrow> node option"

fun is_file :: "node option \<Rightarrow> bool" where
  "is_file (Some (File c)) = True"
| "is_file other = False"

fun file_content :: "node option \<Rightarrow> content option" where
  "file_content (Some (File c)) = Some c"
| "file_content other = None"

text \<open>
  The directories a path runs through: for \<^verbatim>\<open>a/b/c\<close> they are \<^verbatim>\<open>a\<close> and \<^verbatim>\<open>a/b\<close>; for an
  absolute path the first is the root, written as the empty path.
\<close>

fun ancestors :: "string \<Rightarrow> string list" where
  "ancestors [] = []"
| "ancestors (c # cs) =
     (if c = CHR ''/'' then [] # map ((#) c) (ancestors cs)
      else map ((#) c) (ancestors cs))"

text \<open>
  \<^verbatim>\<open>Path(output_dir).mkdir(parents=True, exist_ok=True)\<close> (line 53): a regular file on the
  way raises \<^verbatim>\<open>NotADirectoryError\<close>, a regular file at the path itself
  \<^verbatim>\<open>FileExistsError\<close>; otherwise the directory and its missing ancestors are created and
  what exists is left alone.
\<close>

fun make_directories :: "string list \<Rightarrow> filesystem \<Rightarrow> filesystem" where
  "make_directories [] fs = fs"
| "make_directories (path # paths) fs =
     make_directories paths (if fs path = None then fs(path \<mapsto> Directory) else fs)"

definition mkdir :: "filesystem \<Rightarrow> string \<Rightarrow> error + filesystem" where
  "mkdir fs path =
     (if list_ex (\<lambda>a. is_file (fs a)) (ancestors path) then Inl NotADirectoryError
      else if is_file (fs path) then Inl FileExistsError
      else Inr (make_directories (ancestors path @ [path]) fs))"

text \<open>
  \<^verbatim>\<open>open(json_file_path, 'r')\<close> (line 65): a regular file on the way raises
  \<^verbatim>\<open>NotADirectoryError\<close>, nothing at the path \<^verbatim>\<open>FileNotFoundError\<close>, a directory at the
  path \<^verbatim>\<open>IsADirectoryError\<close>.
\<close>

definition open_file :: "filesystem \<Rightarrow> string \<Rightarrow> error + content" where
  "open_file fs path =
     (if list_ex (\<lambda>a. is_file (fs a)) (ancestors path) then Inl NotADirectoryError
      else (case fs path of
              None \<Rightarrow> Inl FileNotFoundError
            | Some Directory \<Rightarrow> Inl IsADirectoryError
            | Some (File c) \<Rightarrow> Inr c))"

text \<open>
  \<^verbatim>\<open>json.load\<close> and the indexing that follows, on an open file: a file that does not hold
  a document of the shape above raises one of several exceptions (a decoding error, a
  \<^verbatim>\<open>KeyError\<close>, a \<^verbatim>\<open>TypeError\<close>); they are one value here.
\<close>

fun json_load :: "content \<Rightarrow> error + data" where
  "json_load (JsonFile data) = Inr data"
| "json_load other = Inl MalformedInput"

text \<open>
  Every exception of the engine is the one value \<open>DuckDBError\<close>. Where the engine does
  not take a path as the name of the file itself, or the SQL text is changed by a quote
  in the path, what it does depends on more than the model holds; the statement is taken
  to fail there, and no theorem below speaks of such paths.

  \<^verbatim>\<open>COPY customers_secure_sql TO '<path>' (...)\<close>, the path pasted into the SQL text
  between single quotes: the engine writes the file, replacing a file that is there, and
  fails on a directory.
\<close>

definition copy_to :: "engine \<Rightarrow> filesystem \<Rightarrow> string \<Rightarrow> content \<Rightarrow> error + filesystem" where
  "copy_to engine fs path c =
     (if CHR 0x27 \<in> set path then Inl DuckDBError
      else if literal engine path then
        (case fs path of
           Some Directory \<Rightarrow> Inl DuckDBError
         | other \<Rightarrow> Inr (fs(path \<mapsto> File c)))
      else Inl DuckDBError)"

text \<open>
  \<^verbatim>\<open>duckdb.connect(database=db_path)\<close> opens a database file, creating an empty one when
  there is nothing at the path, and fails on anything that is not a database.
\<close>

fun open_database :: "node option \<Rightarrow> error + (string \<times> table) list" where
  "open_database None = Inr []"
| "open_database (Some (File (DuckDBFile tables))) = Inr tables"
| "open_database other = Inl DuckDBError"

definition connect :: "engine \<Rightarrow> filesystem \<Rightarrow> string \<Rightarrow> error + (string \<times> table) list" where
  "connect engine fs path =
     (if literal engine path then open_database (fs path) else Inl DuckDBError)"

text \<open>\<^verbatim>\<open>read_parquet(?)\<close> with the path as a parameter of the statement.\<close>

fun parquet_table :: "node option \<Rightarrow> error + table" where
  "parquet_table (Some (File (ParquetFile t))) = Inr t"
| "parquet_table other = Inl DuckDBError"

definition read_parquet :: "engine \<Rightarrow> filesystem \<Rightarrow> string \<Rightarrow> error + table" where
  "read_parquet engine fs path =
     (if literal engine path then parquet_table (fs path) else Inl DuckDBError)"

text \<open>\<^verbatim>\<open>CREATE TABLE IF NOT EXISTS name AS ...\<close>: an existing table of that name is kept.\<close>

definition create_table_if_not_exists ::
  "(string \<times> table) list \<Rightarrow> string \<Rightarrow> table \<Rightarrow> (string \<times> table) list" where
  "create_table_if_not_exists tables name t =
     (if name \<in> fst ` set tables then tables else tables @ [(name, t)])"

subsection \<open>\<^verbatim>\<open>flatten_and_transform_customer_data\<close>\<close>

text \<open>
  Step 5 of the function, lines 189 to 213: copy \<^verbatim>\<open>customers_secure_sql\<close> to the CSV
  file and to the Parquet file, then open the database file and create its table
  \<^verbatim>\<open>customers_secure\<close> from the Parquet file. Opening the database creates the file,
  so it is there even when the statement that follows fails.
\<close>

definition export_tables ::
  "engine \<Rightarrow> filesystem \<Rightarrow> string \<Rightarrow> table \<Rightarrow> (error + unit) \<times> filesystem" where
  "export_tables engine fs0 output_dir secure_sql =
     (let csv_path = output_dir @ ''/customers_secure.csv'';
          parquet_path = output_dir @ ''/customers_secure.parquet'';
          db_path = output_dir @ ''/customers.duckdb''
      in
      case copy_to engine fs0 csv_path (CsvFile secure_sql) of
        Inl e \<Rightarrow> (Inl e, fs0)
      | Inr fs1 \<Rightarrow>
     (case copy_to engine fs1 parquet_path (ParquetFile secure_sql) of
        Inl e \<Rightarrow> (Inl e, fs1)
      | Inr fs2 \<Rightarrow>
     (case connect engine fs2 db_path of
        Inl e \<Rightarrow> (Inl e, fs2)
      | Inr tables \<Rightarrow>
     (case read_parquet engine fs2 parquet_path of
        Inl e \<Rightarrow> (Inl e, fs2(db_path \<mapsto> File (DuckDBFile tables)))
      | Inr t \<Rightarrow>
          (Inr (),
           fs2(db_path \<mapsto> File (DuckDBFile
             (create_table_if_not_exists tables ''customers_secure'' t))))))))"

text \<open>
  The states in which step 5 goes through: the directory name has no single quote, the
  engine takes the three paths as names of files, there is no directory where the CSV and
  the Parquet file go, and where the database file goes there is nothing or a database.
\<close>

definition can_export :: "engine \<Rightarrow> filesystem \<Rightarrow> string \<Rightarrow> bool" where
  "can_export engine fs0 output_dir =
     (CHR 0x27 \<notin> set output_dir \<and>
      literal engine (output_dir @ ''/customers_secure.csv'') \<and>
      literal engine (output_dir @ ''/customers_secure.parquet'') \<and>
      literal engine (output_dir @ ''/customers.duckdb'') \<and>
      fs0 (output_dir @ ''/customers_secure.csv'') \<noteq> Some Directory \<and>
      fs0 (output_dir @ ''/customers_secure.parquet'') \<noteq> Some Directory \<and>
      (case open_database (fs0 (output_dir @ ''/customers.duckdb'')) of
         Inl e \<Rightarrow> False
       | Inr tables \<Rightarrow> True))"

text \<open>
  Steps 1 to 3, lines 95 to 160, once the input is loaded and flattened in the host
  language.
  \<^item> Lines 95 to 117 have the engine read the input file again, by its path, and build
    \<^verbatim>\<open>customers_tabular\<close>.
  \<^item> Lines 125 to 128 fetch the table as a data frame and apply \<open>mask_email\<close> to its
    \<^verbatim>\<open>Email\<close> column. When the document has no customer at all, the engine has no
    customer field to unnest, the frame has no such column and \<^verbatim>\<open>df['Email']\<close> raises
    \<^verbatim>\<open>KeyError\<close>. When the engine holds the column as another type than text, the frame
    holds objects that are not strings and \<^verbatim>\<open>'@' not in email\<close> raises \<^verbatim>\<open>TypeError\<close>.
  \<^item> Lines 147 to 160 build \<^verbatim>\<open>customers_secure_sql\<close>, the table that step 5 exports.
\<close>

definition build_tables :: "engine \<Rightarrow> string \<Rightarrow> data \<Rightarrow> error + table" where
  "build_tables engine json_file_path data =
     (if literal engine json_file_path then
        (let tabular = customers_tabular engine data (customers_flattened engine data) in
         if tabular = [] then Inl KeyError
         else
           (case detect engine data ''Email'' of
              Some shown \<Rightarrow> Inl TypeError
            | None \<Rightarrow>
                (case apply_mask_email (map t_Email tabular) of
                   Inl e \<Rightarrow> Inl e
                 | Inr Email_Masked \<Rightarrow> Inr (customers_secure_sql tabular))))
      else Inl DuckDBError)"

text \<open>
  The function, in the order of the source. The result is the exception raised, if any,
  and the file system afterwards; console output is left out.
  \<^item> Line 53 creates the output directory.
  \<^item> Lines 65 and 66 open and load the input.
  \<^item> Lines 69 to 86 flatten in the host language; the list is used for the printed count
    only.
  \<^item> Lines 95 to 160 build the tables.
  \<^item> Lines 189 to 213 export.
  \<^item> Steps 4, 6 and 7 (lines 170 to 183 and 220 to 249) only select from
    \<^verbatim>\<open>customers_secure_sql\<close> and print; they change neither a table nor a file.
\<close>

definition flatten_and_transform_customer_data ::
  "engine \<Rightarrow> filesystem \<Rightarrow> string \<Rightarrow> string \<Rightarrow> (error + unit) \<times> filesystem" where
  "flatten_and_transform_customer_data engine fs json_file_path output_dir =
     (case mkdir fs output_dir of
        Inl e \<Rightarrow> (Inl e, fs)
      | Inr fs0 \<Rightarrow>
     (case open_file fs0 json_file_path of
        Inl e \<Rightarrow> (Inl e, fs0)
      | Inr f \<Rightarrow>
     (case json_load f of
        Inl e \<Rightarrow> (Inl e, fs0)
      | Inr data \<Rightarrow>
     (case flatten_customers data of
        Inl e \<Rightarrow> (Inl e, fs0)
      | Inr flattened_customers \<Rightarrow>
     (case build_tables engine json_file_path data of
        Inl e \<Rightarrow> (Inl e, fs0)
      | Inr secure_sql \<Rightarrow> export_tables engine fs0 output_dir secure_sql)))))"





section \<open>Properties of the masking function\<close>

lemma split_first_None: "split_first sep s = None \<longleftrightarrow> sep \<notin> set s"
  by (induction s) (auto split: option.splits)

lemma split_first_append:
  "sep \<notin> set before \<Longrightarrow> split_first sep (before @ sep # after) = Some (before, after)"
  by (induction before) auto

lemma split_first_Some:
  "split_first sep s = Some (before, after) \<Longrightarrow> s = before @ sep # after \<and> sep \<notin> set before"
  by (induction s arbitrary: before) (auto split: if_splits option.splits)

lemma mask_email_no_at: "CHR ''@'' \<notin> set email \<Longrightarrow> mask_email email = Inr email"
  by (simp add: mask_email_def)

lemma mask_email_at:
  "CHR ''@'' \<notin> set local_part \<Longrightarrow>
   mask_email (local_part @ CHR ''@'' # domain) = Inr (''*******@'' @ domain)"
  by (simp add: mask_email_def split_max1_def split_first_append eval_nat_numeral)

lemma mask_email_returns: "\<exists>masked. mask_email email = Inr masked"
proof (cases "CHR ''@'' \<in> set email")
  case True
  then obtain before after where "split_first (CHR ''@'') email = Some (before, after)"
    using split_first_None [of "CHR ''@''" email] by (cases "split_first (CHR ''@'') email") auto
  then have "email = before @ CHR ''@'' # after" "CHR ''@'' \<notin> set before"
    using split_first_Some by blast+
  then show ?thesis using mask_email_at by blast
next
  case False
  then show ?thesis by (simp add: mask_email_no_at)
qed

lemma count_one_decompose:
  "count_list s x = 1 \<Longrightarrow> \<exists>before after. s = before @ x # after \<and> x \<notin> set before \<and> x \<notin> set after"
proof (induction s)
  case Nil
  then show ?case by simp
next
  case (Cons c cs)
  show ?case
  proof (cases "c = x")
    case True
    with Cons.prems have "count_list cs x = 0" by simp
    then have "x \<notin> set cs" by (simp add: count_list_0_iff)
    with True have "c # cs = [] @ x # cs \<and> x \<notin> set [] \<and> x \<notin> set cs" by simp
    then show ?thesis by blast
  next
    case False
    with Cons.prems have "count_list cs x = 1" by simp
    from Cons.IH [OF this] obtain before after
      where "cs = before @ x # after" "x \<notin> set before" "x \<notin> set after" by blast
    with False have "c # cs = (c # before) @ x # after \<and> x \<notin> set (c # before) \<and> x \<notin> set after"
      by simp
    then show ?thesis by blast
  qed
qed

lemma after_first_append:
  "sep \<notin> set before \<Longrightarrow> tl (dropWhile (\<lambda>c. c \<noteq> sep) (before @ sep # after)) = after"
  by (induction before) auto

lemma mask_email_idem: "mask_email email = Inr masked \<Longrightarrow> mask_email masked = Inr masked"
proof (cases "CHR ''@'' \<in> set email")
  case True
  assume m: "mask_email email = Inr masked"
  from True obtain before after where "split_first (CHR ''@'') email = Some (before, after)"
    using split_first_None [of "CHR ''@''" email] by (cases "split_first (CHR ''@'') email") auto
  then have "email = before @ CHR ''@'' # after" "CHR ''@'' \<notin> set before"
    using split_first_Some by blast+
  with m have "masked = ''*******'' @ CHR ''@'' # after"
    by (simp add: mask_email_at)
  moreover have "CHR ''@'' \<notin> set ''*******''" by simp
  ultimately show ?thesis
    using mask_email_at [of "''*******''" after] by simp
next
  case False
  assume "mask_email email = Inr masked"
  with False show ?thesis by (simp add: mask_email_no_at)
qed

text \<open>
  C2. A string with exactly one \<open>@\<close> is a local part, the \<open>@\<close> and a domain; its mask is
  seven \<open>*\<close>, one \<open>@\<close> and that domain unchanged, of length 8 plus the length of the
  domain.
\<close>

theorem mask_email_exactly_one_at:
  assumes "count_list email (CHR ''@'') = 1"
  shows "\<exists>local_part domain masked.
           email = local_part @ ''@'' @ domain \<and>
           mask_email email = Inr masked \<and>
           masked = replicate 7 (CHR ''*'') @ ''@'' @ domain \<and>
           length masked = 8 + length domain"
proof -
  from count_one_decompose [OF assms] obtain local_part domain
    where e: "email = local_part @ CHR ''@'' # domain" and l: "CHR ''@'' \<notin> set local_part"
    by blast
  let ?masked = "replicate 7 (CHR ''*'') @ ''@'' @ domain"
  have "mask_email email = Inr ?masked"
    using e mask_email_at [OF l, of domain] by (simp add: eval_nat_numeral)
  moreover have "length ?masked = 8 + length domain" by simp
  moreover have "email = local_part @ ''@'' @ domain" using e by simp
  ultimately show ?thesis by blast
qed

theorem mask_email_exactly_one_at_witness:
  "count_list ''carlos91@gmail.com'' (CHR ''@'') = 1 \<and>
   (\<exists>local_part domain masked.
      ''carlos91@gmail.com'' = local_part @ ''@'' @ domain \<and>
      mask_email ''carlos91@gmail.com'' = Inr masked \<and>
      masked = replicate 7 (CHR ''*'') @ ''@'' @ domain \<and>
      length masked = 8 + length domain)"
proof -
  have h: "count_list ''carlos91@gmail.com'' (CHR ''@'') = 1" by simp
  show ?thesis using h mask_email_exactly_one_at [OF h] by blast
qed

text \<open>
  C4. On the empty string and on a string without \<open>@\<close> the function returns its argument:
  no exception, no change.
\<close>

theorem mask_email_identity_without_at:
  assumes "email = [] \<or> CHR ''@'' \<notin> set email"
  shows "mask_email email = Inr email"
  using assms by (auto simp add: mask_email_def)

theorem mask_email_identity_without_at_witness:
  "(''not-an-email'' = [] \<or> CHR ''@'' \<notin> set ''not-an-email'') \<and>
   mask_email ''not-an-email'' = Inr ''not-an-email'' \<and>
   mask_email [] = Inr []"
proof -
  have h: "''not-an-email'' = [] \<or> CHR ''@'' \<notin> set ''not-an-email''" by simp
  have h0: "([] :: string) = [] \<or> CHR ''@'' \<notin> set []" by simp
  show ?thesis
    using h mask_email_identity_without_at [OF h] mask_email_identity_without_at [OF h0]
    by simp
qed

text \<open>
  C5. With two \<open>@\<close> the split is at the first one only: the text between the two, the second
  \<open>@\<close> and the text after it are all kept as the domain tail, and
  \<^verbatim>\<open>mask_email("a@b@c")\<close> is \<^verbatim>\<open>"*******@b@c"\<close>.
\<close>

theorem mask_email_two_ats:
  "(\<forall>a b c. CHR ''@'' \<notin> set a \<and> CHR ''@'' \<notin> set b \<and> CHR ''@'' \<notin> set c \<longrightarrow>
      mask_email (a @ ''@'' @ b @ ''@'' @ c) = Inr (''*******@'' @ b @ ''@'' @ c)) \<and>
   mask_email ''a@b@c'' = Inr ''*******@b@c''"
proof -
  have g: "mask_email (a @ ''@'' @ b @ ''@'' @ c) = Inr (''*******@'' @ b @ ''@'' @ c)"
    if "CHR ''@'' \<notin> set a" for a b c
    using mask_email_at [OF that, of "b @ ''@'' @ c"] by simp
  have "CHR ''@'' \<notin> set ''a''" by simp
  from g [OF this, of "''b''" "''c''"] have "mask_email ''a@b@c'' = Inr ''*******@b@c''"
    by simp
  with g show ?thesis by blast
qed

theorem mask_email_two_ats_witness:
  "CHR ''@'' \<notin> set ''ann'' \<and> CHR ''@'' \<notin> set ''host'' \<and> CHR ''@'' \<notin> set ''example.org'' \<and>
   mask_email (''ann'' @ ''@'' @ ''host'' @ ''@'' @ ''example.org'') =
     Inr (''*******@'' @ ''host'' @ ''@'' @ ''example.org'')"
proof -
  have h: "CHR ''@'' \<notin> set ''ann'' \<and> CHR ''@'' \<notin> set ''host'' \<and> CHR ''@'' \<notin> set ''example.org''"
    by simp
  from mask_email_two_ats
  have "mask_email (''ann'' @ ''@'' @ ''host'' @ ''@'' @ ''example.org'') =
          Inr (''*******@'' @ ''host'' @ ''@'' @ ''example.org'')"
    using h by blast
  with h show ?thesis by blast
qed

text \<open>
  C6. When the part of the string after its first \<open>@\<close> has no further \<open>@\<close> (the string has
  at most one \<open>@\<close>), masking the masked string gives the masked string again.
\<close>

theorem mask_email_idempotent:
  assumes "count_list email (CHR ''@'') \<le> 1"
  shows "\<exists>masked. mask_email email = Inr masked \<and> mask_email masked = Inr masked"
proof -
  obtain masked where m: "mask_email email = Inr masked"
    using mask_email_returns by blast
  then have "mask_email masked = Inr masked" by (rule mask_email_idem)
  with m show ?thesis by blast
qed

theorem mask_email_idempotent_witness:
  "count_list ''carlos91@gmail.com'' (CHR ''@'') \<le> 1 \<and>
   mask_email ''carlos91@gmail.com'' = Inr ''*******@gmail.com'' \<and>
   mask_email ''*******@gmail.com'' = Inr ''*******@gmail.com''"
proof -
  have h: "count_list ''carlos91@gmail.com'' (CHR ''@'') \<le> 1" by simp
  have c: "CHR ''@'' \<notin> set ''carlos91''" by simp
  have v: "mask_email ''carlos91@gmail.com'' = Inr ''*******@gmail.com''"
    using mask_email_at [OF c, of "''gmail.com''"] by simp
  from mask_email_idempotent [OF h] v
  have "mask_email ''*******@gmail.com'' = Inr ''*******@gmail.com''" by auto
  with h v show ?thesis by blast
qed

text \<open>
  C9. Two strings that both contain \<open>@\<close> and agree on everything after their first \<open>@\<close> have
  the same mask, whatever stands before the first \<open>@\<close> in each.
\<close>

theorem mask_email_hides_local_part:
  assumes "CHR ''@'' \<in> set email1" and "CHR ''@'' \<in> set email2"
    and "tl (dropWhile (\<lambda>c. c \<noteq> CHR ''@'') email1) = tl (dropWhile (\<lambda>c. c \<noteq> CHR ''@'') email2)"
  shows "mask_email email1 = mask_email email2"
proof -
  obtain b1 a1 where s1: "split_first (CHR ''@'') email1 = Some (b1, a1)"
    using assms(1) split_first_None [of "CHR ''@''" email1]
    by (cases "split_first (CHR ''@'') email1") auto
  obtain b2 a2 where s2: "split_first (CHR ''@'') email2 = Some (b2, a2)"
    using assms(2) split_first_None [of "CHR ''@''" email2]
    by (cases "split_first (CHR ''@'') email2") auto
  from s1 have e1: "email1 = b1 @ CHR ''@'' # a1" and n1: "CHR ''@'' \<notin> set b1"
    using split_first_Some by blast+
  from s2 have e2: "email2 = b2 @ CHR ''@'' # a2" and n2: "CHR ''@'' \<notin> set b2"
    using split_first_Some by blast+
  have "a1 = a2"
    using assms(3) after_first_append [OF n1, of a1] after_first_append [OF n2, of a2]
    by (simp add: e1 e2)
  then show ?thesis
    using mask_email_at [OF n1, of a1] mask_email_at [OF n2, of a2] by (simp add: e1 e2)
qed

theorem mask_email_hides_local_part_witness:
  "CHR ''@'' \<in> set ''carlos91@gmail.com'' \<and> CHR ''@'' \<in> set ''m.t@gmail.com'' \<and>
   tl (dropWhile (\<lambda>c. c \<noteq> CHR ''@'') ''carlos91@gmail.com'') =
     tl (dropWhile (\<lambda>c. c \<noteq> CHR ''@'') ''m.t@gmail.com'') \<and>
   mask_email ''carlos91@gmail.com'' = mask_email ''m.t@gmail.com''"
proof -
  have h1: "CHR ''@'' \<in> set ''carlos91@gmail.com''" by simp
  have h2: "CHR ''@'' \<in> set ''m.t@gmail.com''" by simp
  have h3: "tl (dropWhile (\<lambda>c. c \<noteq> CHR ''@'') ''carlos91@gmail.com'') =
     tl (dropWhile (\<lambda>c. c \<noteq> CHR ''@'') ''m.t@gmail.com'')" by simp
  show ?thesis using h1 h2 h3 mask_email_hides_local_part [OF h1 h2 h3] by blast
qed

section \<open>Properties of the two masking implementations\<close>

lemma split_all_no_sep: "sep \<notin> set s \<Longrightarrow> split_all sep s = [s]"
  by (induction s) auto

lemma split_all_append:
  "sep \<notin> set before \<Longrightarrow> split_all sep (before @ sep # after) = before # split_all sep after"
  by (induction before) auto

lemma sql_agrees_on_one_at:
  assumes "count_list email (CHR ''@'') = 1"
  shows "mask_email email = Inr (Email_Masked_sql email)"
proof -
  from count_one_decompose [OF assms] obtain local_part domain
    where e: "email = local_part @ CHR ''@'' # domain"
      and l: "CHR ''@'' \<notin> set local_part" and d: "CHR ''@'' \<notin> set domain"
    by blast
  have "split_all (CHR ''@'') email = [local_part, domain]"
    by (simp add: e split_all_append [OF l] split_all_no_sep [OF d])
  then have "Email_Masked_sql email = ''*******@'' @ domain"
    by (simp add: Email_Masked_sql_def CONCAT_def SPLIT_PART_def)
  then show ?thesis using mask_email_at [OF l, of domain] e by simp
qed

text \<open>
  C3. The engine-native expression and \<open>mask_email\<close> are meant to be two implementations
  of one masking (the source introduces the expression as the alternative, pure SQL
  approach). They agree on strings with exactly one \<open>@\<close> (\<open>sql_agrees_on_one_at\<close>) and
  differ elsewhere: on \<^verbatim>\<open>a@b@c\<close> the expression keeps only \<^verbatim>\<open>b\<close> where the function
  keeps \<^verbatim>\<open>b@c\<close>, and on a string without \<open>@\<close>, the empty string included, the
  expression gives \<^verbatim>\<open>*******@\<close> where the function returns the string unchanged.
\<close>

theorem masking_implementations_differ:
  "mask_email ''a@b@c'' = Inr ''*******@b@c'' \<and>
   Email_Masked_sql ''a@b@c'' = ''*******@b'' \<and>
   mask_email ''n/a'' = Inr ''n/a'' \<and>
   Email_Masked_sql ''n/a'' = ''*******@'' \<and>
   mask_email [] = Inr [] \<and>
   Email_Masked_sql [] = ''*******@''"
  by (simp add: mask_email_def split_max1_def Email_Masked_sql_def CONCAT_def SPLIT_PART_def
      eval_nat_numeral)

section \<open>Properties of the flatten step\<close>

lemma flatten_loop_length:
  "length (flatten_loop company_id company_name customers acc) = length acc + length customers"
  by (induction customers arbitrary: acc) auto


section \<open>Properties of the tables\<close>

lemma map_nth_upt: "map (\<lambda>k. f (xs ! k)) [0..<length xs] = map f xs"
proof -
  have "map (\<lambda>k. f (xs ! k)) [0..<length xs] = map f (map (\<lambda>k. xs ! k) [0..<length xs])"
    by (simp add: comp_def)
  then show ?thesis by (simp only: map_nth)
qed

lemma flattened_Customers:
  "map (\<lambda>(company_id, name, customers). customers) (customers_flattened engine data) =
     map company_Customers (data_CompanyInfo data)"
  by (simp add: customers_flattened_def Let_def comp_def map_nth_upt)

lemma unnested_customers:
  "map (\<lambda>(company_id, name, customer). customer)
     (concat (map (\<lambda>(company_id, name, customers).
        map (\<lambda>customer. (company_id, name, customer)) customers) flattened_rows)) =
   concat (map (\<lambda>(company_id, name, customers). customers) flattened_rows)"
  by (induction flattened_rows) (auto simp add: comp_def)

lemma tabular_Email:
  "map t_Email (customers_tabular engine data (customers_flattened engine data)) =
     map customer_Email (concat (map company_Customers (data_CompanyInfo data)))"
proof -
  let ?unnested = "concat (map (\<lambda>(company_id, name, customers).
        map (\<lambda>customer. (company_id, name, customer)) customers)
          (customers_flattened engine data))"
  have "map t_Email (customers_tabular engine data (customers_flattened engine data)) =
      map (\<lambda>k. (\<lambda>(company_id, name, customer). customer_Email customer) (?unnested ! k))
        [0..<length ?unnested]"
    by (simp add: customers_tabular_def Let_def comp_def split_def)
  also have "\<dots> = map (\<lambda>(company_id, name, customer). customer_Email customer) ?unnested"
    by (rule map_nth_upt)
  also have "\<dots> = map customer_Email (map (\<lambda>(company_id, name, customer). customer) ?unnested)"
    by (simp add: comp_def split_def)
  also have "\<dots> = map customer_Email (concat (map company_Customers (data_CompanyInfo data)))"
    by (simp only: unnested_customers flattened_Customers)
  finally show ?thesis .
qed

lemma tabular_length:
  "length (customers_tabular engine data (customers_flattened engine data)) =
     length (concat (map company_Customers (data_CompanyInfo data)))"
  using tabular_Email [of engine data, THEN arg_cong, of length] by simp


lemma secure_sql_columns:
  "columns (customers_secure_sql tabular) =
     [''CompanyID'', ''CompanyName'', ''CustomerName'', ''Email_Original'',
      ''Email_Masked'', ''Phone'', ''DateOfBirth'', ''PlaceOfBirth'', ''Role'']"
  by (simp add: customers_secure_sql_def)

lemma secure_sql_rows: "length (rows (customers_secure_sql tabular)) = length tabular"
  by (simp add: customers_secure_sql_def)



lemma secure_sql_Email_Original:
  "column_values (customers_secure_sql tabular) ''Email_Original'' =
     map StrCell (map t_Email tabular)"
  by (simp add: customers_secure_sql_def column_values_def comp_def)

lemma secure_sql_Email_Masked:
  "column_values (customers_secure_sql tabular) ''Email_Masked'' =
     map (\<lambda>email. StrCell (Email_Masked_sql email)) (map t_Email tabular)"
  by (simp add: customers_secure_sql_def column_values_def comp_def)

lemma apply_mask_email_returns: "\<exists>masked. apply_mask_email emails = Inr masked"
proof (induction emails)
  case Nil
  then show ?case by simp
next
  case (Cons email emails)
  then obtain rest where "apply_mask_email emails = Inr rest" by blast
  moreover obtain masked where "mask_email email = Inr masked"
    using mask_email_returns by blast
  ultimately show ?case by simp
qed

section \<open>Properties of the file system operations\<close>

lemma make_directories_other:
  "path \<notin> set paths \<Longrightarrow> make_directories paths fs path = fs path"
  by (induction paths arbitrary: fs) auto

lemma make_directories_kept:
  "fs path \<noteq> None \<Longrightarrow> make_directories paths fs path = fs path"
  by (induction paths arbitrary: fs) auto

lemma make_directories_new:
  "fs path = None \<Longrightarrow>
   make_directories paths fs path = None \<or> make_directories paths fs path = Some Directory"
proof (induction paths arbitrary: fs)
  case Nil
  then show ?case by simp
next
  case (Cons p paths)
  show ?case
  proof (cases "p = path")
    case True
    with Cons.prems have "make_directories (p # paths) fs path = Some Directory"
      by (simp add: make_directories_kept)
    then show ?thesis by simp
  next
    case False
    with Cons.prems Cons.IH [of "if fs p = None then fs(p \<mapsto> Directory) else fs"]
    show ?thesis by auto
  qed
qed

lemma make_directories_file_content:
  "file_content (make_directories paths fs path) = file_content (fs path)"
proof (cases "fs path")
  case None
  with make_directories_new [of fs path paths] show ?thesis by auto
next
  case (Some n)
  then show ?thesis by (simp add: make_directories_kept)
qed


lemma mkdir_file_content:
  "mkdir fs output_dir = Inr fs0 \<Longrightarrow> file_content (fs0 path) = file_content (fs path)"
  by (auto simp add: mkdir_def make_directories_file_content split: if_splits)


lemma mkdir_other:
  "mkdir fs output_dir = Inr fs0 \<Longrightarrow> path \<notin> set (ancestors output_dir) \<Longrightarrow>
   path \<noteq> output_dir \<Longrightarrow> fs0 path = fs path"
  by (auto simp add: mkdir_def make_directories_other split: if_splits)

lemma ancestors_shorter: "a \<in> set (ancestors path) \<Longrightarrow> length a < length path"
  by (induction path arbitrary: a) (auto split: if_splits)

lemma mkdir_below:
  assumes "mkdir fs output_dir = Inr fs0" and "name \<noteq> []"
  shows "fs0 (output_dir @ name) = fs (output_dir @ name)"
proof (rule mkdir_other [OF assms(1)])
  show "output_dir @ name \<notin> set (ancestors output_dir)"
    using ancestors_shorter [of "output_dir @ name" output_dir] by auto
  show "output_dir @ name \<noteq> output_dir" using assms(2) by simp
qed


lemma open_file_Inr:
  "open_file fs path = Inr c \<Longrightarrow> fs path = Some (File c)"
  by (auto simp add: open_file_def split: if_splits option.splits node.splits)

lemma json_load_Inr: "json_load f = Inr data \<longleftrightarrow> f = JsonFile data"
  by (cases f) auto


section \<open>Properties of the pipeline\<close>

lemma export_tables_succeeds:
  assumes "can_export engine fs0 output_dir"
  shows "\<exists>tables.
           open_database (fs0 (output_dir @ ''/customers.duckdb'')) = Inr tables \<and>
           export_tables engine fs0 output_dir t =
             (Inr (),
              fs0(output_dir @ ''/customers_secure.csv'' \<mapsto> File (CsvFile t),
                  output_dir @ ''/customers_secure.parquet'' \<mapsto> File (ParquetFile t),
                  output_dir @ ''/customers.duckdb'' \<mapsto> File (DuckDBFile
                    (create_table_if_not_exists tables ''customers_secure'' t))))"
proof -
  from assms obtain tables
    where db: "open_database (fs0 (output_dir @ ''/customers.duckdb'')) = Inr tables"
    by (auto simp add: can_export_def split: sum.splits)
  from assms have csv: "copy_to engine fs0 (output_dir @ ''/customers_secure.csv'') (CsvFile t) =
      Inr (fs0(output_dir @ ''/customers_secure.csv'' \<mapsto> File (CsvFile t)))"
    by (auto simp add: can_export_def copy_to_def split: option.splits node.splits)
  from assms have parquet: "copy_to engine
      (fs0(output_dir @ ''/customers_secure.csv'' \<mapsto> File (CsvFile t)))
      (output_dir @ ''/customers_secure.parquet'') (ParquetFile t) =
      Inr (fs0(output_dir @ ''/customers_secure.csv'' \<mapsto> File (CsvFile t),
               output_dir @ ''/customers_secure.parquet'' \<mapsto> File (ParquetFile t)))"
    by (auto simp add: can_export_def copy_to_def split: option.splits node.splits)
  from assms db have "export_tables engine fs0 output_dir t =
             (Inr (),
              fs0(output_dir @ ''/customers_secure.csv'' \<mapsto> File (CsvFile t),
                  output_dir @ ''/customers_secure.parquet'' \<mapsto> File (ParquetFile t),
                  output_dir @ ''/customers.duckdb'' \<mapsto> File (DuckDBFile
                    (create_table_if_not_exists tables ''customers_secure'' t))))"
    by (simp add: export_tables_def Let_def csv parquet connect_def read_parquet_def
        can_export_def)
  with db show ?thesis by blast
qed

lemma export_tables_success:
  assumes "fst (export_tables engine fs0 output_dir t) = Inr ()"
  shows "\<exists>tables.
           open_database (fs0 (output_dir @ ''/customers.duckdb'')) = Inr tables \<and>
           snd (export_tables engine fs0 output_dir t) =
              fs0(output_dir @ ''/customers_secure.csv'' \<mapsto> File (CsvFile t),
                  output_dir @ ''/customers_secure.parquet'' \<mapsto> File (ParquetFile t),
                  output_dir @ ''/customers.duckdb'' \<mapsto> File (DuckDBFile
                    (create_table_if_not_exists tables ''customers_secure'' t)))"
  using assms
  by (auto simp add: export_tables_def Let_def copy_to_def connect_def read_parquet_def
      split: sum.splits if_splits option.splits node.splits)

lemma build_tables_Inr:
  assumes "build_tables engine json_file_path data = Inr t"
  shows "t = customers_secure_sql (customers_tabular engine data (customers_flattened engine data))"
    and "customers_tabular engine data (customers_flattened engine data) \<noteq> []"
    and "literal engine json_file_path"
  using assms
  by (auto simp add: build_tables_def Let_def split: if_splits option.splits sum.splits)

lemma build_tables_succeeds:
  assumes "literal engine json_file_path"
    and "concat (map company_Customers (data_CompanyInfo data)) \<noteq> []"
    and "detect engine data ''Email'' = None"
  shows "build_tables engine json_file_path data =
           Inr (customers_secure_sql (customers_tabular engine data (customers_flattened engine data)))"
proof -
  let ?tabular = "customers_tabular engine data (customers_flattened engine data)"
  have "length ?tabular \<noteq> 0" using assms(2) by (simp add: tabular_length)
  then have ne: "?tabular \<noteq> []" by simp
  obtain masked where "apply_mask_email (map t_Email ?tabular) = Inr masked"
    using apply_mask_email_returns by blast
  with ne assms(1,3) show ?thesis
    by (simp add: build_tables_def Let_def)
qed

lemma run_success:
  assumes "fst (flatten_and_transform_customer_data engine fs json_file_path output_dir) = Inr ()"
  shows "\<exists>fs0 data tables.
           mkdir fs output_dir = Inr fs0 \<and>
           open_file fs0 json_file_path = Inr (JsonFile data) \<and>
           customers_tabular engine data (customers_flattened engine data) \<noteq> [] \<and>
           open_database (fs0 (output_dir @ ''/customers.duckdb'')) = Inr tables \<and>
           snd (flatten_and_transform_customer_data engine fs json_file_path output_dir) =
              fs0(output_dir @ ''/customers_secure.csv'' \<mapsto> File (CsvFile
                    (customers_secure_sql
                      (customers_tabular engine data (customers_flattened engine data)))),
                  output_dir @ ''/customers_secure.parquet'' \<mapsto> File (ParquetFile
                    (customers_secure_sql
                      (customers_tabular engine data (customers_flattened engine data)))),
                  output_dir @ ''/customers.duckdb'' \<mapsto> File (DuckDBFile
                    (create_table_if_not_exists tables ''customers_secure''
                      (customers_secure_sql
                        (customers_tabular engine data (customers_flattened engine data))))))"
proof -
  let ?run = "flatten_and_transform_customer_data engine fs json_file_path output_dir"
  from assms obtain fs0 where m: "mkdir fs output_dir = Inr fs0"
    by (cases "mkdir fs output_dir") (auto simp add: flatten_and_transform_customer_data_def)
  from assms m obtain f where o: "open_file fs0 json_file_path = Inr f"
    by (cases "open_file fs0 json_file_path")
      (auto simp add: flatten_and_transform_customer_data_def)
  from assms m o obtain data where j: "json_load f = Inr data"
    by (cases "json_load f") (auto simp add: flatten_and_transform_customer_data_def)
  then have f: "f = JsonFile data" by (simp add: json_load_Inr)
  from assms m o j obtain flattened where fl: "flatten_customers data = Inr flattened"
    by (cases "flatten_customers data")
      (auto simp add: flatten_and_transform_customer_data_def)
  from assms m o j fl obtain t where b: "build_tables engine json_file_path data = Inr t"
    by (cases "build_tables engine json_file_path data")
      (auto simp add: flatten_and_transform_customer_data_def)
  have run: "?run = export_tables engine fs0 output_dir t"
    using m o j fl b by (simp add: flatten_and_transform_customer_data_def)
  with assms have "fst (export_tables engine fs0 output_dir t) = Inr ()" by simp
  from export_tables_success [OF this] obtain tables
    where db: "open_database (fs0 (output_dir @ ''/customers.duckdb'')) = Inr tables"
      and s: "snd (export_tables engine fs0 output_dir t) =
              fs0(output_dir @ ''/customers_secure.csv'' \<mapsto> File (CsvFile t),
                  output_dir @ ''/customers_secure.parquet'' \<mapsto> File (ParquetFile t),
                  output_dir @ ''/customers.duckdb'' \<mapsto> File (DuckDBFile
                    (create_table_if_not_exists tables ''customers_secure'' t)))"
    by blast
  from build_tables_Inr [OF b]
  have t: "t = customers_secure_sql (customers_tabular engine data (customers_flattened engine data))"
    and ne: "customers_tabular engine data (customers_flattened engine data) \<noteq> []"
    by simp_all
  show ?thesis
    using m o f ne db s run t by auto
qed

lemma run_succeeds:
  assumes m: "mkdir fs output_dir = Inr fs0"
    and o: "open_file fs0 json_file_path = Inr (JsonFile data)"
    and l: "literal engine json_file_path"
    and c: "concat (map company_Customers (data_CompanyInfo data)) \<noteq> []"
    and d: "detect engine data ''Email'' = None"
    and x: "can_export engine fs0 output_dir"
  shows "\<exists>tables.
           open_database (fs0 (output_dir @ ''/customers.duckdb'')) = Inr tables \<and>
           flatten_and_transform_customer_data engine fs json_file_path output_dir =
             (Inr (),
              fs0(output_dir @ ''/customers_secure.csv'' \<mapsto> File (CsvFile
                    (customers_secure_sql
                      (customers_tabular engine data (customers_flattened engine data)))),
                  output_dir @ ''/customers_secure.parquet'' \<mapsto> File (ParquetFile
                    (customers_secure_sql
                      (customers_tabular engine data (customers_flattened engine data)))),
                  output_dir @ ''/customers.duckdb'' \<mapsto> File (DuckDBFile
                    (create_table_if_not_exists tables ''customers_secure''
                      (customers_secure_sql
                        (customers_tabular engine data (customers_flattened engine data)))))))"
proof -
  from c have "data_CompanyInfo data \<noteq> []" by auto
  then obtain flattened where fl: "flatten_customers data = Inr flattened"
    by (cases "data_CompanyInfo data") (auto simp add: flatten_customers_def)
  have "flatten_and_transform_customer_data engine fs json_file_path output_dir =
      export_tables engine fs0 output_dir
        (customers_secure_sql (customers_tabular engine data (customers_flattened engine data)))"
    using m o fl build_tables_succeeds [OF l c d]
    by (simp add: flatten_and_transform_customer_data_def)
  with export_tables_succeeds [OF x] show ?thesis by simp
qed






section \<open>The claims about the exported tables and the run\<close>

text \<open>
  C1, as amended. The claim says that no exported artifact holds the original emails. The
  export copies the whole table \<^verbatim>\<open>customers_secure_sql\<close>, and that table selects
  \<^verbatim>\<open>Email as Email_Original\<close>; the note that ends \<^verbatim>\<open>analytics_queries.py\<close> says that
  the column would be kept apart only in production. So in every run that succeeds the
  CSV file and the Parquet file hold one table with the nine columns, \<^verbatim>\<open>Email_Original\<close>
  among them with the email of every customer of the document as it stands there, next to
  \<^verbatim>\<open>Email_Masked\<close> with the value of the engine-native expression; and the table
  \<^verbatim>\<open>customers_secure\<close> of a database file that the run creates is that same table.
\<close>

theorem published_tables_keep_original:
  assumes "fst (flatten_and_transform_customer_data engine fs json_file_path output_dir) = Inr ()"
  shows "\<exists>data t.
       file_content (fs json_file_path) = Some (JsonFile data) \<and>
       snd (flatten_and_transform_customer_data engine fs json_file_path output_dir)
         (output_dir @ ''/customers_secure.csv'') = Some (File (CsvFile t)) \<and>
       snd (flatten_and_transform_customer_data engine fs json_file_path output_dir)
         (output_dir @ ''/customers_secure.parquet'') = Some (File (ParquetFile t)) \<and>
       (fs (output_dir @ ''/customers.duckdb'') = None \<longrightarrow>
          snd (flatten_and_transform_customer_data engine fs json_file_path output_dir)
            (output_dir @ ''/customers.duckdb'') =
            Some (File (DuckDBFile [(''customers_secure'', t)]))) \<and>
       columns t =
         [''CompanyID'', ''CompanyName'', ''CustomerName'', ''Email_Original'',
          ''Email_Masked'', ''Phone'', ''DateOfBirth'', ''PlaceOfBirth'', ''Role''] \<and>
       column_values t ''Email_Original'' =
         map (\<lambda>customer. StrCell (customer_Email customer))
           (concat (map company_Customers (data_CompanyInfo data))) \<and>
       column_values t ''Email_Masked'' =
         map (\<lambda>customer. StrCell (Email_Masked_sql (customer_Email customer)))
           (concat (map company_Customers (data_CompanyInfo data)))"
proof -
  from run_success [OF assms] obtain fs0 data tables
    where m: "mkdir fs output_dir = Inr fs0"
      and o: "open_file fs0 json_file_path = Inr (JsonFile data)"
      and db: "open_database (fs0 (output_dir @ ''/customers.duckdb'')) = Inr tables"
      and r: "snd (flatten_and_transform_customer_data engine fs json_file_path output_dir) =
              fs0(output_dir @ ''/customers_secure.csv'' \<mapsto> File (CsvFile
                    (customers_secure_sql (customers_tabular engine data (customers_flattened engine data)))),
                  output_dir @ ''/customers_secure.parquet'' \<mapsto> File (ParquetFile
                    (customers_secure_sql (customers_tabular engine data (customers_flattened engine data)))),
                  output_dir @ ''/customers.duckdb'' \<mapsto> File (DuckDBFile
                    (create_table_if_not_exists tables ''customers_secure''
                      (customers_secure_sql (customers_tabular engine data (customers_flattened engine data))))))"
    by blast
  let ?t = "customers_secure_sql (customers_tabular engine data (customers_flattened engine data))"
  let ?customers = "concat (map company_Customers (data_CompanyInfo data))"
  have input: "file_content (fs json_file_path) = Some (JsonFile data)"
    using open_file_Inr [OF o] mkdir_file_content [OF m, of json_file_path] by simp
  have csv: "snd (flatten_and_transform_customer_data engine fs json_file_path output_dir)
      (output_dir @ ''/customers_secure.csv'') = Some (File (CsvFile ?t))"
    by (simp add: r)
  have parquet: "snd (flatten_and_transform_customer_data engine fs json_file_path output_dir)
      (output_dir @ ''/customers_secure.parquet'') = Some (File (ParquetFile ?t))"
    by (simp add: r)
  have "fs0 (output_dir @ ''/customers.duckdb'') = fs (output_dir @ ''/customers.duckdb'')"
    by (rule mkdir_below [OF m]) simp
  with db have database: "fs (output_dir @ ''/customers.duckdb'') = None \<longrightarrow>
      snd (flatten_and_transform_customer_data engine fs json_file_path output_dir)
        (output_dir @ ''/customers.duckdb'') =
        Some (File (DuckDBFile [(''customers_secure'', ?t)]))"
    by (auto simp add: r create_table_if_not_exists_def)
  have cols: "columns ?t =
      [''CompanyID'', ''CompanyName'', ''CustomerName'', ''Email_Original'',
       ''Email_Masked'', ''Phone'', ''DateOfBirth'', ''PlaceOfBirth'', ''Role'']"
    by (rule secure_sql_columns)
  have orig: "column_values ?t ''Email_Original'' =
      map (\<lambda>customer. StrCell (customer_Email customer)) ?customers"
    by (simp add: secure_sql_Email_Original tabular_Email comp_def)
  have masked: "column_values ?t ''Email_Masked'' =
      map (\<lambda>customer. StrCell (Email_Masked_sql (customer_Email customer))) ?customers"
    by (simp add: secure_sql_Email_Masked tabular_Email comp_def)
  show ?thesis
    by (rule exI [of _ data], rule exI [of _ ?t])
      (intro conjI input csv parquet database cols orig masked)
qed

theorem published_tables_keep_original_witness:
  "(fst (flatten_and_transform_customer_data example_engine (map_of [(''Customers.json'', File (JsonFile
       \<lparr>data_CompanyID = 1, data_CompanyInfo =
       [\<lparr>company_Name = ''Acme'', company_Customers =
           [\<lparr>customer_Name = ''Carlos'', customer_Email = ''carlos91@gmail.com'',
              customer_Phone = ''555-0100'', customer_Birth = ''1991-04-02'',
              customer_Place_of_Birth = ''Lima'', customer_Role = ''Owner''\<rparr>,
            \<lparr>customer_Name = ''Ana'', customer_Email = ''ana@example.org'',
              customer_Phone = ''555-0101'', customer_Birth = ''1988-11-23'',
              customer_Place_of_Birth = ''Quito'', customer_Role = ''Buyer''\<rparr>]\<rparr>]\<rparr>))]) ''Customers.json'' ''out'') = Inr ()) \<and>
   ((map_of [(''Customers.json'', File (JsonFile
       \<lparr>data_CompanyID = 1, data_CompanyInfo =
       [\<lparr>company_Name = ''Acme'', company_Customers =
           [\<lparr>customer_Name = ''Carlos'', customer_Email = ''carlos91@gmail.com'',
              customer_Phone = ''555-0100'', customer_Birth = ''1991-04-02'',
              customer_Place_of_Birth = ''Lima'', customer_Role = ''Owner''\<rparr>,
            \<lparr>customer_Name = ''Ana'', customer_Email = ''ana@example.org'',
              customer_Phone = ''555-0101'', customer_Birth = ''1988-11-23'',
              customer_Place_of_Birth = ''Quito'', customer_Role = ''Buyer''\<rparr>]\<rparr>]\<rparr>))]) (''out'' @ ''/customers.duckdb'') = None) \<and>
   (\<exists>data t.
     file_content ((map_of [(''Customers.json'', File (JsonFile
       \<lparr>data_CompanyID = 1, data_CompanyInfo =
       [\<lparr>company_Name = ''Acme'', company_Customers =
           [\<lparr>customer_Name = ''Carlos'', customer_Email = ''carlos91@gmail.com'',
              customer_Phone = ''555-0100'', customer_Birth = ''1991-04-02'',
              customer_Place_of_Birth = ''Lima'', customer_Role = ''Owner''\<rparr>,
            \<lparr>customer_Name = ''Ana'', customer_Email = ''ana@example.org'',
              customer_Phone = ''555-0101'', customer_Birth = ''1988-11-23'',
              customer_Place_of_Birth = ''Quito'', customer_Role = ''Buyer''\<rparr>]\<rparr>]\<rparr>))]) ''Customers.json'') = Some (JsonFile data) \<and>
     snd (flatten_and_transform_customer_data example_engine (map_of [(''Customers.json'', File (JsonFile
       \<lparr>data_CompanyID = 1, data_CompanyInfo =
       [\<lparr>company_Name = ''Acme'', company_Customers =
           [\<lparr>customer_Name = ''Carlos'', customer_Email = ''carlos91@gmail.com'',
              customer_Phone = ''555-0100'', customer_Birth = ''1991-04-02'',
              customer_Place_of_Birth = ''Lima'', customer_Role = ''Owner''\<rparr>,
            \<lparr>customer_Name = ''Ana'', customer_Email = ''ana@example.org'',
              customer_Phone = ''555-0101'', customer_Birth = ''1988-11-23'',
              customer_Place_of_Birth = ''Quito'', customer_Role = ''Buyer''\<rparr>]\<rparr>]\<rparr>))]) ''Customers.json'' ''out'')
       (''out'' @ ''/customers_secure.csv'') = Some (File (CsvFile t)) \<and>
     snd (flatten_and_transform_customer_data example_engine (map_of [(''Customers.json'', File (JsonFile
       \<lparr>data_CompanyID = 1, data_CompanyInfo =
       [\<lparr>company_Name = ''Acme'', company_Customers =
           [\<lparr>customer_Name = ''Carlos'', customer_Email = ''carlos91@gmail.com'',
              customer_Phone = ''555-0100'', customer_Birth = ''1991-04-02'',
              customer_Place_of_Birth = ''Lima'', customer_Role = ''Owner''\<rparr>,
            \<lparr>customer_Name = ''Ana'', customer_Email = ''ana@example.org'',
              customer_Phone = ''555-0101'', customer_Birth = ''1988-11-23'',
              customer_Place_of_Birth = ''Quito'', customer_Role = ''Buyer''\<rparr>]\<rparr>]\<rparr>))]) ''Customers.json'' ''out'')
       (''out'' @ ''/customers_secure.parquet'') = Some (File (ParquetFile t)) \<and>
     ((map_of [(''Customers.json'', File (JsonFile
       \<lparr>data_CompanyID = 1, data_CompanyInfo =
       [\<lparr>company_Name = ''Acme'', company_Customers =
           [\<lparr>customer_Name = ''Carlos'', customer_Email = ''carlos91@gmail.com'',
              customer_Phone = ''555-0100'', customer_Birth = ''1991-04-02'',
              customer_Place_of_Birth = ''Lima'', customer_Role = ''Owner''\<rparr>,
            \<lparr>customer_Name = ''Ana'', customer_Email = ''ana@example.org'',
              customer_Phone = ''555-0101'', customer_Birth = ''1988-11-23'',
              customer_Place_of_Birth = ''Quito'', customer_Role = ''Buyer''\<rparr>]\<rparr>]\<rparr>))]) (''out'' @ ''/customers.duckdb'') = None \<longrightarrow>
        snd (flatten_and_transform_customer_data example_engine (map_of [(''Customers.json'', File (JsonFile
       \<lparr>data_CompanyID = 1, data_CompanyInfo =
       [\<lparr>company_Name = ''Acme'', company_Customers =
           [\<lparr>customer_Name = ''Carlos'', customer_Email = ''carlos91@gmail.com'',
              customer_Phone = ''555-0100'', customer_Birth = ''1991-04-02'',
              customer_Place_of_Birth = ''Lima'', customer_Role = ''Owner''\<rparr>,
            \<lparr>customer_Name = ''Ana'', customer_Email = ''ana@example.org'',
              customer_Phone = ''555-0101'', customer_Birth = ''1988-11-23'',
              customer_Place_of_Birth = ''Quito'', customer_Role = ''Buyer''\<rparr>]\<rparr>]\<rparr>))]) ''Customers.json'' ''out'')
          (''out'' @ ''/customers.duckdb'') =
          Some (File (DuckDBFile [(''customers_secure'', t)]))) \<and>
     columns t =
       [''CompanyID'', ''CompanyName'', ''CustomerName'', ''Email_Original'',
        ''Email_Masked'', ''Phone'', ''DateOfBirth'', ''PlaceOfBirth'', ''Role''] \<and>
     column_values t ''Email_Original'' =
       map (\<lambda>customer. StrCell (customer_Email customer))
         (concat (map company_Customers (data_CompanyInfo data))) \<and>
     column_values t ''Email_Masked'' =
       map (\<lambda>customer. StrCell (Email_Masked_sql (customer_Email customer)))
         (concat (map company_Customers (data_CompanyInfo data))))"
proof -
  have h: "fst (flatten_and_transform_customer_data example_engine (map_of [(''Customers.json'', File (JsonFile
       \<lparr>data_CompanyID = 1, data_CompanyInfo =
       [\<lparr>company_Name = ''Acme'', company_Customers =
           [\<lparr>customer_Name = ''Carlos'', customer_Email = ''carlos91@gmail.com'',
              customer_Phone = ''555-0100'', customer_Birth = ''1991-04-02'',
              customer_Place_of_Birth = ''Lima'', customer_Role = ''Owner''\<rparr>,
            \<lparr>customer_Name = ''Ana'', customer_Email = ''ana@example.org'',
              customer_Phone = ''555-0101'', customer_Birth = ''1988-11-23'',
              customer_Place_of_Birth = ''Quito'', customer_Role = ''Buyer''\<rparr>]\<rparr>]\<rparr>))]) ''Customers.json'' ''out'') = Inr ()"
    by (simp add: flatten_and_transform_customer_data_def build_tables_def export_tables_def
      mkdir_def open_file_def copy_to_def connect_def read_parquet_def
      flatten_customers_def customers_tabular_def customers_flattened_def
      customers_secure_sql_def column_cells_def example_engine_def example_detect_def
      field_values_def detect_dates_def
      plain_name_def digit_def mask_email_def split_max1_def Email_Masked_sql_def
      CONCAT_def SPLIT_PART_def create_table_if_not_exists_def Let_def eval_nat_numeral)
  have e: "(map_of [(''Customers.json'', File (JsonFile
       \<lparr>data_CompanyID = 1, data_CompanyInfo =
       [\<lparr>company_Name = ''Acme'', company_Customers =
           [\<lparr>customer_Name = ''Carlos'', customer_Email = ''carlos91@gmail.com'',
              customer_Phone = ''555-0100'', customer_Birth = ''1991-04-02'',
              customer_Place_of_Birth = ''Lima'', customer_Role = ''Owner''\<rparr>,
            \<lparr>customer_Name = ''Ana'', customer_Email = ''ana@example.org'',
              customer_Phone = ''555-0101'', customer_Birth = ''1988-11-23'',
              customer_Place_of_Birth = ''Quito'', customer_Role = ''Buyer''\<rparr>]\<rparr>]\<rparr>))]) (''out'' @ ''/customers.duckdb'') = None"
    by simp
  show ?thesis
    by (intro conjI h e published_tables_keep_original [OF h])
qed

text \<open>
  The claim C1 fails on the document of the end-to-end scenario: the CSV file of the run
  has the column \<^verbatim>\<open>Email_Original\<close>, and in it \<^verbatim>\<open>carlos91@gmail.com\<close>.
\<close>

theorem published_csv_holds_original_email:
  "snd (flatten_and_transform_customer_data example_engine
       (map_of [(''Customers.json'', File (JsonFile
          \<lparr>data_CompanyID = 1, data_CompanyInfo =
             [\<lparr>company_Name = ''Acme'', company_Customers =
                 [\<lparr>customer_Name = ''Carlos'', customer_Email = ''carlos91@gmail.com'',
                    customer_Phone = ''555-0100'', customer_Birth = ''1991-04-02'',
                    customer_Place_of_Birth = ''Lima'', customer_Role = ''Owner''\<rparr>]\<rparr>]\<rparr>))])
       ''Customers.json'' ''out'')
     ''out/customers_secure.csv'' =
   Some (File (CsvFile
     \<lparr>columns = [''CompanyID'', ''CompanyName'', ''CustomerName'', ''Email_Original'',
                 ''Email_Masked'', ''Phone'', ''DateOfBirth'', ''PlaceOfBirth'', ''Role''],
      rows = [[IntCell 1, StrCell ''Acme'', StrCell ''Carlos'', StrCell ''carlos91@gmail.com'',
               StrCell ''*******@gmail.com'', StrCell ''555-0100'', TypedCell ''1991-04-02'',
               StrCell ''Lima'', StrCell ''Owner'']]\<rparr>))"
  by (simp add: flatten_and_transform_customer_data_def build_tables_def export_tables_def
      mkdir_def open_file_def copy_to_def connect_def read_parquet_def
      flatten_customers_def customers_tabular_def customers_flattened_def
      customers_secure_sql_def column_cells_def example_engine_def example_detect_def
      field_values_def detect_dates_def
      plain_name_def digit_def mask_email_def split_max1_def Email_Masked_sql_def
      CONCAT_def SPLIT_PART_def create_table_if_not_exists_def Let_def eval_nat_numeral)







text \<open>
  C10, as amended. When \<^verbatim>\<open>CompanyInfo\<close> holds more than one company, the host-language
  loop reads \<^verbatim>\<open>CompanyInfo[0]\<close> only: it raises nothing, and its list, the one the step
  counts and prints, is the list of the document cut down to its first company. The
  exported table is built by the SQL route, which unnests every company: when the run
  goes through as in C7, the CSV file and the Parquet file hold one row for each customer
  of every company, the later companies included.
\<close>

theorem export_all_companies:
  assumes "mkdir fs output_dir = Inr fs0"
    and "open_file fs0 json_file_path = Inr (JsonFile data)"
    and "literal engine json_file_path"
    and "data_CompanyInfo data = first # later"
    and "later \<noteq> []"
    and "concat (map company_Customers (first # later)) \<noteq> []"
    and "detect engine data ''Email'' = None"
    and "can_export engine fs0 output_dir"
  shows "\<exists>records t fs'.
       flatten_customers data = Inr records \<and>
       flatten_customers (data\<lparr>data_CompanyInfo := [first]\<rparr>) = Inr records \<and>
       length records = length (company_Customers first) \<and>
       flatten_and_transform_customer_data engine fs json_file_path output_dir = (Inr (), fs') \<and>
       fs' (output_dir @ ''/customers_secure.csv'') = Some (File (CsvFile t)) \<and>
       fs' (output_dir @ ''/customers_secure.parquet'') = Some (File (ParquetFile t)) \<and>
       length (rows t) = length (concat (map company_Customers (first # later))) \<and>
       column_values t ''Email_Original'' =
         map (\<lambda>customer. StrCell (customer_Email customer))
           (concat (map company_Customers (first # later)))"
proof -
  let ?tabular = "customers_tabular engine data (customers_flattened engine data)"
  let ?t = "customers_secure_sql ?tabular"
  let ?customers = "concat (map company_Customers (first # later))"
  let ?records = "flatten_loop (data_CompanyID data) (company_Name first)
                    (company_Customers first) []"
  have all: "concat (map company_Customers (data_CompanyInfo data)) = ?customers"
    using assms(4) by simp
  have host: "flatten_customers data = Inr ?records"
    using assms(4) by (simp add: flatten_customers_def)
  have cut: "flatten_customers (data\<lparr>data_CompanyInfo := [first]\<rparr>) = Inr ?records"
    by (simp add: flatten_customers_def)
  have hostlen: "length ?records = length (company_Customers first)"
    by (simp add: flatten_loop_length)
  from run_succeeds [OF assms(1,2,3) _ assms(7,8)] assms(6) all
  obtain tables where run:
    "flatten_and_transform_customer_data engine fs json_file_path output_dir =
       (Inr (),
        fs0(output_dir @ ''/customers_secure.csv'' \<mapsto> File (CsvFile ?t),
            output_dir @ ''/customers_secure.parquet'' \<mapsto> File (ParquetFile ?t),
            output_dir @ ''/customers.duckdb'' \<mapsto> File (DuckDBFile
              (create_table_if_not_exists tables ''customers_secure'' ?t))))"
    by auto
  let ?fs' = "fs0(output_dir @ ''/customers_secure.csv'' \<mapsto> File (CsvFile ?t),
            output_dir @ ''/customers_secure.parquet'' \<mapsto> File (ParquetFile ?t),
            output_dir @ ''/customers.duckdb'' \<mapsto> File (DuckDBFile
              (create_table_if_not_exists tables ''customers_secure'' ?t)))"
  have csv: "?fs' (output_dir @ ''/customers_secure.csv'') = Some (File (CsvFile ?t))"
    by simp
  have parquet: "?fs' (output_dir @ ''/customers_secure.parquet'') = Some (File (ParquetFile ?t))"
    by simp
  have len: "length (rows ?t) = length ?customers"
    by (simp only: secure_sql_rows tabular_length all)
  have orig: "column_values ?t ''Email_Original'' =
      map (\<lambda>customer. StrCell (customer_Email customer)) ?customers"
    by (simp only: secure_sql_Email_Original tabular_Email all) (simp add: comp_def)
  show ?thesis
    by (rule exI [of _ ?records], rule exI [of _ ?t], rule exI [of _ ?fs'])
      (intro conjI host cut hostlen run csv parquet len orig)
qed

theorem export_all_companies_witness:
  "(mkdir (map_of [(''Customers.json'', File (JsonFile
       \<lparr>data_CompanyID = 7, data_CompanyInfo =
       [\<lparr>company_Name = ''Acme'', company_Customers =
           [\<lparr>customer_Name = ''Carlos'', customer_Email = ''carlos91@gmail.com'',
              customer_Phone = ''555-0100'', customer_Birth = ''1991-04-02'',
              customer_Place_of_Birth = ''Lima'', customer_Role = ''Owner''\<rparr>]\<rparr>,
        \<lparr>company_Name = ''Bolt'', company_Customers =
           [\<lparr>customer_Name = ''Dana'', customer_Email = ''dana@bolt.io'',
              customer_Phone = ''555-0199'', customer_Birth = ''1979-01-30'',
              customer_Place_of_Birth = ''Cusco'', customer_Role = ''Admin''\<rparr>]\<rparr>]\<rparr>))]) ''out'' = Inr ((map_of [(''Customers.json'', File (JsonFile
       \<lparr>data_CompanyID = 7, data_CompanyInfo =
       [\<lparr>company_Name = ''Acme'', company_Customers =
           [\<lparr>customer_Name = ''Carlos'', customer_Email = ''carlos91@gmail.com'',
              customer_Phone = ''555-0100'', customer_Birth = ''1991-04-02'',
              customer_Place_of_Birth = ''Lima'', customer_Role = ''Owner''\<rparr>]\<rparr>,
        \<lparr>company_Name = ''Bolt'', company_Customers =
           [\<lparr>customer_Name = ''Dana'', customer_Email = ''dana@bolt.io'',
              customer_Phone = ''555-0199'', customer_Birth = ''1979-01-30'',
              customer_Place_of_Birth = ''Cusco'', customer_Role = ''Admin''\<rparr>]\<rparr>]\<rparr>))])(''out'' \<mapsto> Directory))) \<and>
   (open_file ((map_of [(''Customers.json'', File (JsonFile
       \<lparr>data_CompanyID = 7, data_CompanyInfo =
       [\<lparr>company_Name = ''Acme'', company_Customers =
           [\<lparr>customer_Name = ''Carlos'', customer_Email = ''carlos91@gmail.com'',
              customer_Phone = ''555-0100'', customer_Birth = ''1991-04-02'',
              customer_Place_of_Birth = ''Lima'', customer_Role = ''Owner''\<rparr>]\<rparr>,
        \<lparr>company_Name = ''Bolt'', company_Customers =
           [\<lparr>customer_Name = ''Dana'', customer_Email = ''dana@bolt.io'',
              customer_Phone = ''555-0199'', customer_Birth = ''1979-01-30'',
              customer_Place_of_Birth = ''Cusco'', customer_Role = ''Admin''\<rparr>]\<rparr>]\<rparr>))])(''out'' \<mapsto> Directory)) ''Customers.json'' = Inr (JsonFile \<lparr>data_CompanyID = 7, data_CompanyInfo =
       [\<lparr>company_Name = ''Acme'', company_Customers =
           [\<lparr>customer_Name = ''Carlos'', customer_Email = ''carlos91@gmail.com'',
              customer_Phone = ''555-0100'', customer_Birth = ''1991-04-02'',
              customer_Place_of_Birth = ''Lima'', customer_Role = ''Owner''\<rparr>]\<rparr>,
        \<lparr>company_Name = ''Bolt'', company_Customers =
           [\<lparr>customer_Name = ''Dana'', customer_Email = ''dana@bolt.io'',
              customer_Phone = ''555-0199'', customer_Birth = ''1979-01-30'',
              customer_Place_of_Birth = ''Cusco'', customer_Role = ''Admin''\<rparr>]\<rparr>]\<rparr>)) \<and>
   (literal example_engine ''Customers.json'') \<and>
   (data_CompanyInfo \<lparr>data_CompanyID = 7, data_CompanyInfo =
       [\<lparr>company_Name = ''Acme'', company_Customers =
           [\<lparr>customer_Name = ''Carlos'', customer_Email = ''carlos91@gmail.com'',
              customer_Phone = ''555-0100'', customer_Birth = ''1991-04-02'',
              customer_Place_of_Birth = ''Lima'', customer_Role = ''Owner''\<rparr>]\<rparr>,
        \<lparr>company_Name = ''Bolt'', company_Customers =
           [\<lparr>customer_Name = ''Dana'', customer_Email = ''dana@bolt.io'',
              customer_Phone = ''555-0199'', customer_Birth = ''1979-01-30'',
              customer_Place_of_Birth = ''Cusco'', customer_Role = ''Admin''\<rparr>]\<rparr>]\<rparr> = \<lparr>company_Name = ''Acme'', company_Customers =
           [\<lparr>customer_Name = ''Carlos'', customer_Email = ''carlos91@gmail.com'',
              customer_Phone = ''555-0100'', customer_Birth = ''1991-04-02'',
              customer_Place_of_Birth = ''Lima'', customer_Role = ''Owner''\<rparr>]\<rparr> # [\<lparr>company_Name = ''Bolt'', company_Customers =
           [\<lparr>customer_Name = ''Dana'', customer_Email = ''dana@bolt.io'',
              customer_Phone = ''555-0199'', customer_Birth = ''1979-01-30'',
              customer_Place_of_Birth = ''Cusco'', customer_Role = ''Admin''\<rparr>]\<rparr>]) \<and>
   ([\<lparr>company_Name = ''Bolt'', company_Customers =
           [\<lparr>customer_Name = ''Dana'', customer_Email = ''dana@bolt.io'',
              customer_Phone = ''555-0199'', customer_Birth = ''1979-01-30'',
              customer_Place_of_Birth = ''Cusco'', customer_Role = ''Admin''\<rparr>]\<rparr>] \<noteq> []) \<and>
   (concat (map company_Customers (\<lparr>company_Name = ''Acme'', company_Customers =
           [\<lparr>customer_Name = ''Carlos'', customer_Email = ''carlos91@gmail.com'',
              customer_Phone = ''555-0100'', customer_Birth = ''1991-04-02'',
              customer_Place_of_Birth = ''Lima'', customer_Role = ''Owner''\<rparr>]\<rparr> # [\<lparr>company_Name = ''Bolt'', company_Customers =
           [\<lparr>customer_Name = ''Dana'', customer_Email = ''dana@bolt.io'',
              customer_Phone = ''555-0199'', customer_Birth = ''1979-01-30'',
              customer_Place_of_Birth = ''Cusco'', customer_Role = ''Admin''\<rparr>]\<rparr>])) \<noteq> []) \<and>
   (detect example_engine \<lparr>data_CompanyID = 7, data_CompanyInfo =
       [\<lparr>company_Name = ''Acme'', company_Customers =
           [\<lparr>customer_Name = ''Carlos'', customer_Email = ''carlos91@gmail.com'',
              customer_Phone = ''555-0100'', customer_Birth = ''1991-04-02'',
              customer_Place_of_Birth = ''Lima'', customer_Role = ''Owner''\<rparr>]\<rparr>,
        \<lparr>company_Name = ''Bolt'', company_Customers =
           [\<lparr>customer_Name = ''Dana'', customer_Email = ''dana@bolt.io'',
              customer_Phone = ''555-0199'', customer_Birth = ''1979-01-30'',
              customer_Place_of_Birth = ''Cusco'', customer_Role = ''Admin''\<rparr>]\<rparr>]\<rparr> ''Email'' = None) \<and>
   (can_export example_engine ((map_of [(''Customers.json'', File (JsonFile
       \<lparr>data_CompanyID = 7, data_CompanyInfo =
       [\<lparr>company_Name = ''Acme'', company_Customers =
           [\<lparr>customer_Name = ''Carlos'', customer_Email = ''carlos91@gmail.com'',
              customer_Phone = ''555-0100'', customer_Birth = ''1991-04-02'',
              customer_Place_of_Birth = ''Lima'', customer_Role = ''Owner''\<rparr>]\<rparr>,
        \<lparr>company_Name = ''Bolt'', company_Customers =
           [\<lparr>customer_Name = ''Dana'', customer_Email = ''dana@bolt.io'',
              customer_Phone = ''555-0199'', customer_Birth = ''1979-01-30'',
              customer_Place_of_Birth = ''Cusco'', customer_Role = ''Admin''\<rparr>]\<rparr>]\<rparr>))])(''out'' \<mapsto> Directory)) ''out'') \<and>
   (\<exists>records t fs'.
     flatten_customers \<lparr>data_CompanyID = 7, data_CompanyInfo =
       [\<lparr>company_Name = ''Acme'', company_Customers =
           [\<lparr>customer_Name = ''Carlos'', customer_Email = ''carlos91@gmail.com'',
              customer_Phone = ''555-0100'', customer_Birth = ''1991-04-02'',
              customer_Place_of_Birth = ''Lima'', customer_Role = ''Owner''\<rparr>]\<rparr>,
        \<lparr>company_Name = ''Bolt'', company_Customers =
           [\<lparr>customer_Name = ''Dana'', customer_Email = ''dana@bolt.io'',
              customer_Phone = ''555-0199'', customer_Birth = ''1979-01-30'',
              customer_Place_of_Birth = ''Cusco'', customer_Role = ''Admin''\<rparr>]\<rparr>]\<rparr> = Inr records \<and>
     flatten_customers (\<lparr>data_CompanyID = 7, data_CompanyInfo =
       [\<lparr>company_Name = ''Acme'', company_Customers =
           [\<lparr>customer_Name = ''Carlos'', customer_Email = ''carlos91@gmail.com'',
              customer_Phone = ''555-0100'', customer_Birth = ''1991-04-02'',
              customer_Place_of_Birth = ''Lima'', customer_Role = ''Owner''\<rparr>]\<rparr>,
        \<lparr>company_Name = ''Bolt'', company_Customers =
           [\<lparr>customer_Name = ''Dana'', customer_Email = ''dana@bolt.io'',
              customer_Phone = ''555-0199'', customer_Birth = ''1979-01-30'',
              customer_Place_of_Birth = ''Cusco'', customer_Role = ''Admin''\<rparr>]\<rparr>]\<rparr>\<lparr>data_CompanyInfo := [\<lparr>company_Name = ''Acme'', company_Customers =
           [\<lparr>customer_Name = ''Carlos'', customer_Email = ''carlos91@gmail.com'',
              customer_Phone = ''555-0100'', customer_Birth = ''1991-04-02'',
              customer_Place_of_Birth = ''Lima'', customer_Role = ''Owner''\<rparr>]\<rparr>]\<rparr>) = Inr records \<and>
     length records = length (company_Customers \<lparr>company_Name = ''Acme'', company_Customers =
           [\<lparr>customer_Name = ''Carlos'', customer_Email = ''carlos91@gmail.com'',
              customer_Phone = ''555-0100'', customer_Birth = ''1991-04-02'',
              customer_Place_of_Birth = ''Lima'', customer_Role = ''Owner''\<rparr>]\<rparr>) \<and>
     flatten_and_transform_customer_data example_engine (map_of [(''Customers.json'', File (JsonFile
       \<lparr>data_CompanyID = 7, data_CompanyInfo =
       [\<lparr>company_Name = ''Acme'', company_Customers =
           [\<lparr>customer_Name = ''Carlos'', customer_Email = ''carlos91@gmail.com'',
              customer_Phone = ''555-0100'', customer_Birth = ''1991-04-02'',
              customer_Place_of_Birth = ''Lima'', customer_Role = ''Owner''\<rparr>]\<rparr>,
        \<lparr>company_Name = ''Bolt'', company_Customers =
           [\<lparr>customer_Name = ''Dana'', customer_Email = ''dana@bolt.io'',
              customer_Phone = ''555-0199'', customer_Birth = ''1979-01-30'',
              customer_Place_of_Birth = ''Cusco'', customer_Role = ''Admin''\<rparr>]\<rparr>]\<rparr>))]) ''Customers.json'' ''out'' = (Inr (), fs') \<and>
     fs' (''out'' @ ''/customers_secure.csv'') = Some (File (CsvFile t)) \<and>
     fs' (''out'' @ ''/customers_secure.parquet'') = Some (File (ParquetFile t)) \<and>
     length (rows t) = length (concat (map company_Customers (\<lparr>company_Name = ''Acme'', company_Customers =
           [\<lparr>customer_Name = ''Carlos'', customer_Email = ''carlos91@gmail.com'',
              customer_Phone = ''555-0100'', customer_Birth = ''1991-04-02'',
              customer_Place_of_Birth = ''Lima'', customer_Role = ''Owner''\<rparr>]\<rparr> # [\<lparr>company_Name = ''Bolt'', company_Customers =
           [\<lparr>customer_Name = ''Dana'', customer_Email = ''dana@bolt.io'',
              customer_Phone = ''555-0199'', customer_Birth = ''1979-01-30'',
              customer_Place_of_Birth = ''Cusco'', customer_Role = ''Admin''\<rparr>]\<rparr>]))) \<and>
     column_values t ''Email_Original'' =
       map (\<lambda>customer. StrCell (customer_Email customer))
         (concat (map company_Customers (\<lparr>company_Name = ''Acme'', company_Customers =
           [\<lparr>customer_Name = ''Carlos'', customer_Email = ''carlos91@gmail.com'',
              customer_Phone = ''555-0100'', customer_Birth = ''1991-04-02'',
              customer_Place_of_Birth = ''Lima'', customer_Role = ''Owner''\<rparr>]\<rparr> # [\<lparr>company_Name = ''Bolt'', company_Customers =
           [\<lparr>customer_Name = ''Dana'', customer_Email = ''dana@bolt.io'',
              customer_Phone = ''555-0199'', customer_Birth = ''1979-01-30'',
              customer_Place_of_Birth = ''Cusco'', customer_Role = ''Admin''\<rparr>]\<rparr>]))))"
proof -
  have h1: "mkdir (map_of [(''Customers.json'', File (JsonFile
       \<lparr>data_CompanyID = 7, data_CompanyInfo =
       [\<lparr>company_Name = ''Acme'', company_Customers =
           [\<lparr>customer_Name = ''Carlos'', customer_Email = ''carlos91@gmail.com'',
              customer_Phone = ''555-0100'', customer_Birth = ''1991-04-02'',
              customer_Place_of_Birth = ''Lima'', customer_Role = ''Owner''\<rparr>]\<rparr>,
        \<lparr>company_Name = ''Bolt'', company_Customers =
           [\<lparr>customer_Name = ''Dana'', customer_Email = ''dana@bolt.io'',
              customer_Phone = ''555-0199'', customer_Birth = ''1979-01-30'',
              customer_Place_of_Birth = ''Cusco'', customer_Role = ''Admin''\<rparr>]\<rparr>]\<rparr>))]) ''out'' = Inr ((map_of [(''Customers.json'', File (JsonFile
       \<lparr>data_CompanyID = 7, data_CompanyInfo =
       [\<lparr>company_Name = ''Acme'', company_Customers =
           [\<lparr>customer_Name = ''Carlos'', customer_Email = ''carlos91@gmail.com'',
              customer_Phone = ''555-0100'', customer_Birth = ''1991-04-02'',
              customer_Place_of_Birth = ''Lima'', customer_Role = ''Owner''\<rparr>]\<rparr>,
        \<lparr>company_Name = ''Bolt'', company_Customers =
           [\<lparr>customer_Name = ''Dana'', customer_Email = ''dana@bolt.io'',
              customer_Phone = ''555-0199'', customer_Birth = ''1979-01-30'',
              customer_Place_of_Birth = ''Cusco'', customer_Role = ''Admin''\<rparr>]\<rparr>]\<rparr>))])(''out'' \<mapsto> Directory))"
    by (simp add: mkdir_def open_file_def example_engine_def example_detect_def field_values_def
        plain_name_def detect_dates_def can_export_def)
  have h2: "open_file ((map_of [(''Customers.json'', File (JsonFile
       \<lparr>data_CompanyID = 7, data_CompanyInfo =
       [\<lparr>company_Name = ''Acme'', company_Customers =
           [\<lparr>customer_Name = ''Carlos'', customer_Email = ''carlos91@gmail.com'',
              customer_Phone = ''555-0100'', customer_Birth = ''1991-04-02'',
              customer_Place_of_Birth = ''Lima'', customer_Role = ''Owner''\<rparr>]\<rparr>,
        \<lparr>company_Name = ''Bolt'', company_Customers =
           [\<lparr>customer_Name = ''Dana'', customer_Email = ''dana@bolt.io'',
              customer_Phone = ''555-0199'', customer_Birth = ''1979-01-30'',
              customer_Place_of_Birth = ''Cusco'', customer_Role = ''Admin''\<rparr>]\<rparr>]\<rparr>))])(''out'' \<mapsto> Directory)) ''Customers.json'' = Inr (JsonFile \<lparr>data_CompanyID = 7, data_CompanyInfo =
       [\<lparr>company_Name = ''Acme'', company_Customers =
           [\<lparr>customer_Name = ''Carlos'', customer_Email = ''carlos91@gmail.com'',
              customer_Phone = ''555-0100'', customer_Birth = ''1991-04-02'',
              customer_Place_of_Birth = ''Lima'', customer_Role = ''Owner''\<rparr>]\<rparr>,
        \<lparr>company_Name = ''Bolt'', company_Customers =
           [\<lparr>customer_Name = ''Dana'', customer_Email = ''dana@bolt.io'',
              customer_Phone = ''555-0199'', customer_Birth = ''1979-01-30'',
              customer_Place_of_Birth = ''Cusco'', customer_Role = ''Admin''\<rparr>]\<rparr>]\<rparr>)"
    by (simp add: mkdir_def open_file_def example_engine_def example_detect_def field_values_def
        plain_name_def detect_dates_def can_export_def)
  have h3: "literal example_engine ''Customers.json''"
    by (simp add: mkdir_def open_file_def example_engine_def example_detect_def field_values_def
        plain_name_def detect_dates_def can_export_def)
  have h4: "data_CompanyInfo \<lparr>data_CompanyID = 7, data_CompanyInfo =
       [\<lparr>company_Name = ''Acme'', company_Customers =
           [\<lparr>customer_Name = ''Carlos'', customer_Email = ''carlos91@gmail.com'',
              customer_Phone = ''555-0100'', customer_Birth = ''1991-04-02'',
              customer_Place_of_Birth = ''Lima'', customer_Role = ''Owner''\<rparr>]\<rparr>,
        \<lparr>company_Name = ''Bolt'', company_Customers =
           [\<lparr>customer_Name = ''Dana'', customer_Email = ''dana@bolt.io'',
              customer_Phone = ''555-0199'', customer_Birth = ''1979-01-30'',
              customer_Place_of_Birth = ''Cusco'', customer_Role = ''Admin''\<rparr>]\<rparr>]\<rparr> = \<lparr>company_Name = ''Acme'', company_Customers =
           [\<lparr>customer_Name = ''Carlos'', customer_Email = ''carlos91@gmail.com'',
              customer_Phone = ''555-0100'', customer_Birth = ''1991-04-02'',
              customer_Place_of_Birth = ''Lima'', customer_Role = ''Owner''\<rparr>]\<rparr> # [\<lparr>company_Name = ''Bolt'', company_Customers =
           [\<lparr>customer_Name = ''Dana'', customer_Email = ''dana@bolt.io'',
              customer_Phone = ''555-0199'', customer_Birth = ''1979-01-30'',
              customer_Place_of_Birth = ''Cusco'', customer_Role = ''Admin''\<rparr>]\<rparr>]"
    by (simp add: mkdir_def open_file_def example_engine_def example_detect_def field_values_def
        plain_name_def detect_dates_def can_export_def)
  have h5: "[\<lparr>company_Name = ''Bolt'', company_Customers =
           [\<lparr>customer_Name = ''Dana'', customer_Email = ''dana@bolt.io'',
              customer_Phone = ''555-0199'', customer_Birth = ''1979-01-30'',
              customer_Place_of_Birth = ''Cusco'', customer_Role = ''Admin''\<rparr>]\<rparr>] \<noteq> []"
    by (simp add: mkdir_def open_file_def example_engine_def example_detect_def field_values_def
        plain_name_def detect_dates_def can_export_def)
  have h6: "concat (map company_Customers (\<lparr>company_Name = ''Acme'', company_Customers =
           [\<lparr>customer_Name = ''Carlos'', customer_Email = ''carlos91@gmail.com'',
              customer_Phone = ''555-0100'', customer_Birth = ''1991-04-02'',
              customer_Place_of_Birth = ''Lima'', customer_Role = ''Owner''\<rparr>]\<rparr> # [\<lparr>company_Name = ''Bolt'', company_Customers =
           [\<lparr>customer_Name = ''Dana'', customer_Email = ''dana@bolt.io'',
              customer_Phone = ''555-0199'', customer_Birth = ''1979-01-30'',
              customer_Place_of_Birth = ''Cusco'', customer_Role = ''Admin''\<rparr>]\<rparr>])) \<noteq> []"
    by (simp add: mkdir_def open_file_def example_engine_def example_detect_def field_values_def
        plain_name_def detect_dates_def can_export_def)
  have h7: "detect example_engine \<lparr>data_CompanyID = 7, data_CompanyInfo =
       [\<lparr>company_Name = ''Acme'', company_Customers =
           [\<lparr>customer_Name = ''Carlos'', customer_Email = ''carlos91@gmail.com'',
              customer_Phone = ''555-0100'', customer_Birth = ''1991-04-02'',
              customer_Place_of_Birth = ''Lima'', customer_Role = ''Owner''\<rparr>]\<rparr>,
        \<lparr>company_Name = ''Bolt'', company_Customers =
           [\<lparr>customer_Name = ''Dana'', customer_Email = ''dana@bolt.io'',
              customer_Phone = ''555-0199'', customer_Birth = ''1979-01-30'',
              customer_Place_of_Birth = ''Cusco'', customer_Role = ''Admin''\<rparr>]\<rparr>]\<rparr> ''Email'' = None"
    by (simp add: mkdir_def open_file_def example_engine_def example_detect_def field_values_def
        plain_name_def detect_dates_def can_export_def)
  have h8: "can_export example_engine ((map_of [(''Customers.json'', File (JsonFile
       \<lparr>data_CompanyID = 7, data_CompanyInfo =
       [\<lparr>company_Name = ''Acme'', company_Customers =
           [\<lparr>customer_Name = ''Carlos'', customer_Email = ''carlos91@gmail.com'',
              customer_Phone = ''555-0100'', customer_Birth = ''1991-04-02'',
              customer_Place_of_Birth = ''Lima'', customer_Role = ''Owner''\<rparr>]\<rparr>,
        \<lparr>company_Name = ''Bolt'', company_Customers =
           [\<lparr>customer_Name = ''Dana'', customer_Email = ''dana@bolt.io'',
              customer_Phone = ''555-0199'', customer_Birth = ''1979-01-30'',
              customer_Place_of_Birth = ''Cusco'', customer_Role = ''Admin''\<rparr>]\<rparr>]\<rparr>))])(''out'' \<mapsto> Directory)) ''out''"
    by (simp add: mkdir_def open_file_def example_engine_def example_detect_def field_values_def
        plain_name_def detect_dates_def can_export_def)
  show ?thesis
    by (intro conjI h1 h2 h3 h4 h5 h6 h7 h8  export_all_companies [OF h1 h2 h3 h4 h5 h6 h7 h8])
qed

text \<open>
  The claim C10 fails on a document with two companies of one customer each: the
  host-language list holds the first company's customer only, and the exported CSV file
  holds two rows, the second one the customer of the second company.
\<close>

theorem export_holds_later_companies:
  "flatten_customers
     \<lparr>data_CompanyID = 7, data_CompanyInfo =
        [\<lparr>company_Name = ''Acme'', company_Customers =
            [\<lparr>customer_Name = ''Carlos'', customer_Email = ''carlos91@gmail.com'',
               customer_Phone = ''555-0100'', customer_Birth = ''1991-04-02'',
               customer_Place_of_Birth = ''Lima'', customer_Role = ''Owner''\<rparr>]\<rparr>,
         \<lparr>company_Name = ''Bolt'', company_Customers =
            [\<lparr>customer_Name = ''Dana'', customer_Email = ''dana@bolt.io'',
               customer_Phone = ''555-0199'', customer_Birth = ''1979-01-30'',
               customer_Place_of_Birth = ''Cusco'', customer_Role = ''Admin''\<rparr>]\<rparr>]\<rparr> =
     Inr [\<lparr>CompanyID = 7, CompanyName = ''Acme'', CustomerName = ''Carlos'',
            Email = ''carlos91@gmail.com'', Phone = ''555-0100'', DateOfBirth = ''1991-04-02'',
            PlaceOfBirth = ''Lima'', Role = ''Owner''\<rparr>] \<and>
   snd (flatten_and_transform_customer_data example_engine
       (map_of [(''Customers.json'', File (JsonFile
          \<lparr>data_CompanyID = 7, data_CompanyInfo =
             [\<lparr>company_Name = ''Acme'', company_Customers =
                 [\<lparr>customer_Name = ''Carlos'', customer_Email = ''carlos91@gmail.com'',
                    customer_Phone = ''555-0100'', customer_Birth = ''1991-04-02'',
                    customer_Place_of_Birth = ''Lima'', customer_Role = ''Owner''\<rparr>]\<rparr>,
              \<lparr>company_Name = ''Bolt'', company_Customers =
                 [\<lparr>customer_Name = ''Dana'', customer_Email = ''dana@bolt.io'',
                    customer_Phone = ''555-0199'', customer_Birth = ''1979-01-30'',
                    customer_Place_of_Birth = ''Cusco'', customer_Role = ''Admin''\<rparr>]\<rparr>]\<rparr>))])
       ''Customers.json'' ''out'')
     ''out/customers_secure.csv'' =
   Some (File (CsvFile
     \<lparr>columns = [''CompanyID'', ''CompanyName'', ''CustomerName'', ''Email_Original'',
                 ''Email_Masked'', ''Phone'', ''DateOfBirth'', ''PlaceOfBirth'', ''Role''],
      rows = [[IntCell 7, StrCell ''Acme'', StrCell ''Carlos'', StrCell ''carlos91@gmail.com'',
               StrCell ''*******@gmail.com'', StrCell ''555-0100'', TypedCell ''1991-04-02'',
               StrCell ''Lima'', StrCell ''Owner''],
              [IntCell 7, StrCell ''Bolt'', StrCell ''Dana'', StrCell ''dana@bolt.io'',
               StrCell ''*******@bolt.io'', StrCell ''555-0199'', TypedCell ''1979-01-30'',
               StrCell ''Cusco'', StrCell ''Admin'']]\<rparr>))"
  by (simp add: flatten_and_transform_customer_data_def build_tables_def export_tables_def
      mkdir_def open_file_def copy_to_def connect_def read_parquet_def
      flatten_customers_def customers_tabular_def customers_flattened_def
      customers_secure_sql_def column_cells_def example_engine_def example_detect_def
      field_values_def detect_dates_def
      plain_name_def digit_def mask_email_def split_max1_def Email_Masked_sql_def
      CONCAT_def SPLIT_PART_def create_table_if_not_exists_def Let_def eval_nat_numeral)

end
